theory Spec2Isabelle
  imports Main "HOL-Library.Word"
begin

unbundle bit_operations_syntax

section \<open>The RTP receiver module (module-rtp-recv.c)\<close>

text \<open>
  A shallow embedding of \<^verbatim>\<open>src/modules/rtp/module-rtp-recv.c\<close>: the per-packet
  callback \<^verbatim>\<open>rtpoll_work_cb\<close>, the session registry kept by \<^verbatim>\<open>session_new\<close>,
  \<^verbatim>\<open>session_free\<close> and \<^verbatim>\<open>sap_event_cb\<close>, and the timer callback
  \<^verbatim>\<open>check_death_event_cb\<close>.

  Fixed-width C integers are words (\<^verbatim>\<open>uint32_t\<close> is \<open>32 word\<close>, \<^verbatim>\<open>pa_usec_t\<close> and
  \<^verbatim>\<open>uint64_t\<close> are \<open>64 word\<close>). The \<^verbatim>\<open>int64_t\<close> values of the timestamp check are
  integers: they are sums and differences of at most three 32-bit quantities, so they lie
  strictly between \<open>- 2 ^ 32\<close> and \<open>2 ^ 33\<close> and the C arithmetic never overflows.
\<close>

subsection \<open>Constants\<close>

type_synonym pa_usec_t = "64 word"

definition PA_USEC_PER_SEC :: pa_usec_t where
  "PA_USEC_PER_SEC = 1000000"

definition PA_USEC_PER_MSEC :: pa_usec_t where
  "PA_USEC_PER_MSEC = 1000"

definition MEMBLOCKQ_MAXLENGTH :: nat where
  "MEMBLOCKQ_MAXLENGTH = 1024 * 1024 * 40"

definition MAX_SESSIONS :: int where
  "MAX_SESSIONS = 16"

definition DEATH_TIMEOUT :: int where
  "DEATH_TIMEOUT = 20"

definition RATE_UPDATE_INTERVAL :: pa_usec_t where
  "RATE_UPDATE_INTERVAL = 5 * PA_USEC_PER_SEC"

definition LATENCY_USEC :: pa_usec_t where
  "LATENCY_USEC = 500 * PA_USEC_PER_MSEC"

subsection \<open>The timestamp overflow check of \<^verbatim>\<open>rtpoll_work_cb\<close>\<close>

text \<open>
  \<^verbatim>\<open>k = (int64_t) s->rtp_context.timestamp - (int64_t) s->offset;\<close>
\<close>

definition delta_k :: "32 word \<Rightarrow> 32 word \<Rightarrow> int" where
  "delta_k offset timestamp = uint timestamp - uint offset"

text \<open>
  \<^verbatim>\<open>j = (int64_t) 0x100000000LL - (int64_t) s->offset + (int64_t) s->rtp_context.timestamp;\<close>
\<close>

definition delta_j :: "32 word \<Rightarrow> 32 word \<Rightarrow> int" where
  "delta_j offset timestamp = 0x100000000 - uint offset + uint timestamp"

text \<open>
  \<^verbatim>\<open>if ((k < 0 ? -k : k) < (j < 0 ? -j : j)) delta = k; else delta = j;\<close>
\<close>

definition timestamp_delta :: "32 word \<Rightarrow> 32 word \<Rightarrow> int" where
  "timestamp_delta offset timestamp =
     (let k = delta_k offset timestamp;
          j = delta_j offset timestamp
      in if (if k < 0 then - k else k) < (if j < 0 then - j else j) then k else j)"

subsection \<open>Time values\<close>

text \<open>\<^verbatim>\<open>struct timeval\<close>: seconds (\<^verbatim>\<open>time_t\<close>) and microseconds.\<close>

record timeval =
  tv_sec :: int
  tv_usec :: int

text \<open>
  Modelled from the spec: \<^verbatim>\<open>pa_timeval_load\<close> (pulse/timeval.c) is not among the sources.
  It is the time value as one count of microseconds, a \<^verbatim>\<open>pa_usec_t\<close>; the spec's "now".
\<close>

definition pa_timeval_load :: "timeval \<Rightarrow> pa_usec_t" where
  "pa_timeval_load tv = word_of_int (tv_sec tv * 1000000 + tv_usec tv)"

text \<open>
  Modelled from the spec: \<^verbatim>\<open>pa_timeval_add\<close> (pulse/timeval.c) is not among the sources.
  The spec's "rearms itself for another DEATH_TIMEOUT" is read as: the given number of
  microseconds is added to the time value, the microsecond field staying below one second.
\<close>

definition pa_timeval_add :: "timeval \<Rightarrow> pa_usec_t \<Rightarrow> timeval" where
  "pa_timeval_add tv v =
     \<lparr>tv_sec = tv_sec tv + (tv_usec tv + uint v) div 1000000,
      tv_usec = (tv_usec tv + uint v) mod 1000000\<rparr>"

subsection \<open>The jitter buffer\<close>

text \<open>
  Modelled from the spec: \<^verbatim>\<open>pa_memblockq\<close> (pulsecore/memblockq.c) is not among the
  sources. The spec describes it as "an ordered byte queue with an absolute write cursor
  and read cursor, bounded by a maximum length, pre-seeded with silence, supporting
  relative seeks of the write cursor (to skip gaps or rewind on reorder)". The model keeps
  the two absolute cursors, the maximum length, the length of the pre-buffered silence,
  and the payload bytes the queue holds, each at its absolute position. A position that
  holds no payload byte reads as silence.
\<close>

record memblockq =
  read_index :: int
  write_index :: int
  maxlength :: nat
  prebuf :: nat
  stored :: "(int \<times> 8 word) list"

text \<open>
  Modelled from the spec: the content of the queue, as the byte found at each absolute
  position.
\<close>

definition content :: "memblockq \<Rightarrow> int \<Rightarrow> 8 word option" where
  "content q = map_of (stored q)"

text \<open>
  Modelled from the spec: \<^verbatim>\<open>pa_memblockq_get_length\<close>, the occupancy of the buffer: the
  distance from the read cursor to the write cursor, and zero when the write cursor is
  behind the read cursor. It is what the module reports as the session's latency (line
  134) and what the spec calls "the buffer's current occupancy".
\<close>

definition pa_memblockq_get_length :: "memblockq \<Rightarrow> nat" where
  "pa_memblockq_get_length q = nat (write_index q - read_index q)"

text \<open>Putting one byte at a position replaces the byte that was there.\<close>

fun put_byte :: "int \<Rightarrow> 8 word \<Rightarrow> (int \<times> 8 word) list \<Rightarrow> (int \<times> 8 word) list" where
  "put_byte i b [] = [(i, b)]"
| "put_byte i b (p # ps) = (if fst p = i then (i, b) # ps else p # put_byte i b ps)"

fun put_bytes :: "int \<Rightarrow> 8 word list \<Rightarrow> (int \<times> 8 word) list \<Rightarrow> (int \<times> 8 word) list" where
  "put_bytes i [] ps = ps"
| "put_bytes i (b # bs) ps = put_bytes (i + 1) bs (put_byte i b ps)"

text \<open>
  Modelled from the spec: \<^verbatim>\<open>pa_memblockq_new\<close>, with the arguments \<^verbatim>\<open>session_new\<close>
  gives it that the model keeps: the start index, the maximum length and the pre-buffer
  length. No payload is held yet.
\<close>

definition pa_memblockq_new :: "int \<Rightarrow> nat \<Rightarrow> nat \<Rightarrow> memblockq" where
  "pa_memblockq_new idx maxlen pre =
     \<lparr>read_index = idx, write_index = idx, maxlength = maxlen, prebuf = pre, stored = []\<rparr>"

text \<open>
  Modelled from the spec: \<^verbatim>\<open>pa_memblockq_seek\<close> with \<^verbatim>\<open>PA_SEEK_RELATIVE\<close>, a
  relative seek of the write cursor, forwards or backwards.
\<close>

definition pa_memblockq_seek :: "memblockq \<Rightarrow> int \<Rightarrow> memblockq" where
  "pa_memblockq_seek q off = q\<lparr>write_index := write_index q + off\<rparr>"

text \<open>
  Modelled from the spec: \<^verbatim>\<open>pa_memblockq_push\<close>. "Pushing a payload larger than
  remaining buffer capacity", the maximum length less the occupancy, fails (\<open>None\<close>, the
  C function's negative result) and leaves the queue as it was; otherwise the payload is
  written at the write cursor, which moves behind it.
\<close>

definition pa_memblockq_push :: "memblockq \<Rightarrow> 8 word list \<Rightarrow> memblockq option" where
  "pa_memblockq_push q chunk =
     (if length chunk > maxlength q - pa_memblockq_get_length q then None
      else Some (q\<lparr>stored := put_bytes (write_index q) chunk (stored q),
                   write_index := write_index q + int (length chunk)\<rparr>))"

definition pa_memblockq_get_write_index :: "memblockq \<Rightarrow> int" where
  "pa_memblockq_get_write_index q = write_index q"

definition pa_memblockq_get_read_index :: "memblockq \<Rightarrow> int" where
  "pa_memblockq_get_read_index q = read_index q"

text \<open>
  Modelled from the spec: \<^verbatim>\<open>pa_memblockq_is_readable\<close>, "the buffer has data available
  to read": some payload byte lies at or after the read cursor.
\<close>

definition pa_memblockq_is_readable :: "memblockq \<Rightarrow> bool" where
  "pa_memblockq_is_readable q = list_ex (\<lambda>p. read_index q \<le> fst p) (stored q)"

subsection \<open>The time smoother\<close>

text \<open>
  Modelled from the spec: \<^verbatim>\<open>pa_smoother\<close> (pulsecore/time-smoother.c) is not among the
  sources. The model keeps the time origin and the samples recorded, newest first. The
  estimate \<^verbatim>\<open>pa_smoother_get\<close> returns is an input of the callback
  (\<open>smoother_get\<close> below).
\<close>

record pa_smoother =
  time_offset :: pa_usec_t
  samples :: "(pa_usec_t \<times> pa_usec_t) list"

definition pa_smoother_new :: pa_smoother where
  "pa_smoother_new = \<lparr>time_offset = 0, samples = []\<rparr>"

definition pa_smoother_set_time_offset :: "pa_smoother \<Rightarrow> pa_usec_t \<Rightarrow> pa_smoother" where
  "pa_smoother_set_time_offset sm t = sm\<lparr>time_offset := t\<rparr>"

definition pa_smoother_put :: "pa_smoother \<Rightarrow> pa_usec_t \<Rightarrow> pa_usec_t \<Rightarrow> pa_smoother" where
  "pa_smoother_put sm x y = sm\<lparr>samples := (x, y) # samples sm\<rparr>"

subsection \<open>Sessions\<close>

text \<open>\<^verbatim>\<open>pa_sample_spec\<close>: sample format, rate and channel count.\<close>

record pa_sample_spec =
  format :: nat
  rate :: "32 word"
  channels :: "8 word"

text \<open>
  The fields of \<^verbatim>\<open>pa_sink_input\<close> the module reads and writes: its sample spec, the
  I/O thread's copy of it, the length of the current underrun, the input rate last given
  to the resampler (\<^verbatim>\<open>pa_resampler_set_input_rate\<close>), and whether a rewind was requested
  (\<^verbatim>\<open>pa_sink_input_request_rewind\<close>).
\<close>

record pa_sink_input =
  sample_spec :: pa_sample_spec
  thread_info_sample_spec :: pa_sample_spec
  underrun_for :: nat
  resampler_input_rate :: "32 word"
  rewind_requested :: bool

text \<open>The fields of \<^verbatim>\<open>pa_sdp_info\<close> the module uses.\<close>

record pa_sdp_info =
  origin :: string
  session_name :: "string option"
  payload :: "8 word"
  sdp_sample_spec :: pa_sample_spec

text \<open>
  \<^verbatim>\<open>pa_rtp_context\<close>: the socket, the header fields of the packet decoded last, and the
  frame size.
\<close>

record pa_rtp_context =
  fd :: int
  rtp_payload :: "8 word"
  rtp_ssrc :: "32 word"
  rtp_timestamp :: "32 word"
  frame_size :: nat

text \<open>
  \<^verbatim>\<open>struct session\<close>. The field \<open>timestamp\<close> is the \<^verbatim>\<open>pa_atomic_t\<close>, a C \<^verbatim>\<open>int\<close>,
  read as signed by \<open>sint\<close>. The back pointer \<^verbatim>\<open>userdata\<close> and the list links are part
  of the registry below; of the poll item only its \<^verbatim>\<open>revents\<close> are used, an input of the
  callback.
\<close>

record session =
  sink_input :: pa_sink_input
  memblockq :: memblockq
  first_packet :: bool
  ssrc :: "32 word"
  offset :: "32 word"
  sdp_info :: pa_sdp_info
  rtp_context :: pa_rtp_context
  timestamp :: "32 word"
  smoother :: pa_smoother
  intended_latency :: pa_usec_t
  sink_latency :: pa_usec_t
  last_rate_update :: pa_usec_t

subsection \<open>The inputs of the per-packet callback\<close>

text \<open>
  Modelled from the spec: the transport codec (\<^verbatim>\<open>pa_rtp_recv\<close>, rtp.c) is not among the
  sources. A decoded packet is "stream_id, timestamp (32-bit wrapping), payload_type,
  payload bytes".
\<close>

record rtp_packet =
  pkt_payload :: "8 word"
  pkt_ssrc :: "32 word"
  pkt_timestamp :: "32 word"
  pkt_chunk :: "8 word list"

text \<open>
  What one run of \<^verbatim>\<open>rtpoll_work_cb\<close> reads from outside the session: the \<^verbatim>\<open>revents\<close>
  of its poll descriptor, the result of \<^verbatim>\<open>pa_rtp_recv\<close> (\<open>None\<close> when it fails), the
  clock (\<^verbatim>\<open>pa_rtclock_get\<close>), the core's cookie, the value \<^verbatim>\<open>pa_smoother_get\<close> returns,
  the function \<^verbatim>\<open>pa_bytes_to_usec\<close> (pulse/sample.c, not among the sources), the sink's
  answer to \<^verbatim>\<open>PA_SINK_MESSAGE_GET_LATENCY\<close> (\<open>None\<close> when the message fails), and the
  render queue's length as a time.
\<close>

record work_env =
  in_revents :: "16 word"
  in_recv :: "rtp_packet option"
  in_now :: timeval
  in_cookie :: "32 word"
  in_smoother_get :: pa_usec_t
  in_bytes_to_usec :: "64 word \<Rightarrow> pa_sample_spec \<Rightarrow> pa_usec_t"
  in_sink_latency :: "pa_usec_t option"
  in_render_delay :: pa_usec_t

text \<open>The \<^verbatim>\<open>poll.h\<close> event bits (Linux values).\<close>

definition POLLIN :: "16 word" where "POLLIN = 0x001"
definition POLLOUT :: "16 word" where "POLLOUT = 0x004"
definition POLLERR :: "16 word" where "POLLERR = 0x008"
definition POLLHUP :: "16 word" where "POLLHUP = 0x010"
definition POLLNVAL :: "16 word" where "POLLNVAL = 0x020"

text \<open>The messages the callback logs.\<close>

datatype log_msg =
    Log_bad_revents
  | Log_packet_loop
  | Log_queue_overrun
  | Log_updating_rate
  | Log_deviation pa_usec_t pa_usec_t
  | Log_fix_too_large "32 word"
  | Log_updated_rate "32 word"
  | Log_request_rewind

subsection \<open>\<^verbatim>\<open>rtpoll_work_cb\<close>\<close>

text \<open>
  Modelled from the spec: \<^verbatim>\<open>pa_rtp_recv\<close> stores the decoded header fields in the RTP
  context and hands out the payload; on failure nothing is handed out.
\<close>

definition pa_rtp_recv :: "work_env \<Rightarrow> session \<Rightarrow> (session \<times> 8 word list) option" where
  "pa_rtp_recv env s =
     (case in_recv env of
        None \<Rightarrow> None
      | Some pkt \<Rightarrow>
          Some (s\<lparr>rtp_context := (rtp_context s)
                     \<lparr>rtp_payload := pkt_payload pkt,
                      rtp_ssrc := pkt_ssrc pkt,
                      rtp_timestamp := pkt_timestamp pkt\<rparr>\<rparr>,
                pkt_chunk pkt))"

text \<open>
  Lines 217 to 230: the first packet binds the session to its SSRC and timestamp; later
  packets of another SSRC are discarded (\<open>None\<close>).
\<close>

definition bind_stream :: "work_env \<Rightarrow> session \<Rightarrow> (session \<times> log_msg list) option" where
  "bind_stream env s =
     (if \<not> first_packet s then
        (let s' = s\<lparr>first_packet := True,
                     ssrc := rtp_ssrc (rtp_context s),
                     offset := rtp_timestamp (rtp_context s)\<rparr>
         in Some (s', if ssrc s' = in_cookie env then [Log_packet_loop] else []))
      else if ssrc s \<noteq> rtp_ssrc (rtp_context s) then None
      else Some (s, []))"

text \<open>
  Lines 232 to 259: the seek by the timestamp delta, the smoother sample, the push (on
  failure the warning and the seek by the chunk's length), the next expected timestamp and
  the time of the last packet. \<^verbatim>\<open>chunk.length / frame_size\<close> is a division of
  \<^verbatim>\<open>size_t\<close> values; the frame size of a valid sample spec is positive.
\<close>

definition enqueue :: "work_env \<Rightarrow> 8 word list \<Rightarrow> session \<Rightarrow> session \<times> log_msg list" where
  "enqueue env chunk s =
     (let delta = timestamp_delta (offset s) (rtp_timestamp (rtp_context s));
          q1 = pa_memblockq_seek (memblockq s) (delta * int (frame_size (rtp_context s)));
          sm = pa_smoother_put (smoother s) (pa_timeval_load (in_now env))
                 (in_bytes_to_usec env (word_of_int (pa_memblockq_get_write_index q1))
                    (sample_spec (sink_input s)));
          (q2, lg) = (case pa_memblockq_push q1 chunk of
                        None \<Rightarrow> (pa_memblockq_seek q1 (int (length chunk)), [Log_queue_overrun])
                      | Some q \<Rightarrow> (q, []))
      in (s\<lparr>memblockq := q2,
            smoother := sm,
            offset := rtp_timestamp (rtp_context s)
                        + of_nat (length chunk div frame_size (rtp_context s)),
            timestamp := word_of_int (tv_sec (in_now env))\<rparr>,
          lg))"

text \<open>Lines 267 to 283: the latency the rate update measures.\<close>

definition measured_latency :: "work_env \<Rightarrow> session \<Rightarrow> pa_usec_t" where
  "measured_latency env s =
     (let wi = in_smoother_get env;
          ri = in_bytes_to_usec env (word_of_int (pa_memblockq_get_read_index (memblockq s)))
                 (sample_spec (sink_input s));
          sink_delay = (case in_sink_latency env of None \<Rightarrow> 0 | Some d \<Rightarrow> d);
          render_delay = in_render_delay env;
          ri' = (if ri > render_delay + sink_delay then ri - (render_delay + sink_delay) else 0)
      in if wi < ri' then 0 else wi - ri')"

text \<open>Lines 287 to 291: \<^verbatim>\<open>fix\<close>, the deviation from the intended latency.\<close>

definition deviation :: "work_env \<Rightarrow> session \<Rightarrow> pa_usec_t" where
  "deviation env s =
     (let latency = measured_latency env s
      in if latency < intended_latency s then intended_latency s - latency
         else latency - intended_latency s)"

text \<open>
  Line 294: \<^verbatim>\<open>fix_samples\<close>, computed in \<^verbatim>\<open>pa_usec_t\<close> from the I/O thread's copy of the
  sample rate and cut to \<^verbatim>\<open>unsigned\<close>.
\<close>

definition fix_samples :: "work_env \<Rightarrow> session \<Rightarrow> 32 word" where
  "fix_samples env s =
     ucast ((deviation env s * ucast (rate (thread_info_sample_spec (sink_input s))))
              div RATE_UPDATE_INTERVAL)"

text \<open>
  Line 297: \<^verbatim>\<open>fix_samples > s->sink_input->sample_spec.rate*.20\<close>. The C comparison is
  between doubles. Both integers are below \<open>2 ^ 32\<close> and convert exactly; the double
  nearest to 0.20 is \<open>0.2 * (1 + 2 ^ -54)\<close>, so the rounded product is \<open>rate / 5\<close> when 5
  divides the rate and lies strictly between the two integers next to \<open>rate / 5\<close> when it
  does not. The comparison therefore holds exactly when \<open>rate < 5 * fix_samples\<close>.
\<close>

definition fix_too_large :: "work_env \<Rightarrow> session \<Rightarrow> bool" where
  "fix_too_large env s =
     (unat (rate (sample_spec (sink_input s))) < 5 * unat (fix_samples env s))"

text \<open>Lines 262 to 310: the body of the rate update.\<close>

definition update_rate :: "work_env \<Rightarrow> session \<Rightarrow> session \<times> log_msg list" where
  "update_rate env s =
     (let latency = measured_latency env s;
          fs = fix_samples env s;
          lg = (if fix_too_large env s then [Log_fix_too_large fs] else []);
          si = sink_input s;
          new_rate = (if latency < intended_latency s then rate (sample_spec si) - fs
                      else rate (sample_spec si) + fs);
          si' = si\<lparr>sample_spec := (sample_spec si)\<lparr>rate := new_rate\<rparr>,
                   resampler_input_rate := new_rate\<rparr>
      in (s\<lparr>sink_input := si', last_rate_update := pa_timeval_load (in_now env)\<rparr>,
          [Log_updating_rate, Log_deviation latency (intended_latency s)] @ lg
            @ [Log_updated_rate new_rate]))"

text \<open>Lines 313 to 317: the rewind request at the end of an underrun.\<close>

definition request_rewind :: "session \<Rightarrow> session \<times> log_msg list" where
  "request_rewind s =
     (if pa_memblockq_is_readable (memblockq s) \<and> underrun_for (sink_input s) > 0
      then (s\<lparr>sink_input := (sink_input s)\<lparr>rewind_requested := True\<rparr>\<rparr>, [Log_request_rewind])
      else (s, []))"

text \<open>
  Lines 232 to 319: what the callback does with a packet it has accepted.
\<close>

definition process_chunk :: "work_env \<Rightarrow> 8 word list \<Rightarrow> session \<Rightarrow> session \<times> log_msg list" where
  "process_chunk env chunk s2 =
     (let (s3, lg3) = enqueue env chunk s2;
          (s4, lg4) =
            (if last_rate_update s3 + RATE_UPDATE_INTERVAL < pa_timeval_load (in_now env)
             then update_rate env s3 else (s3, []));
          (s5, lg5) = request_rewind s4
      in (s5, lg3 @ lg4 @ lg5))"

text \<open>
  The callback: its return value, the session afterwards and the messages logged. (The
  reset \<^verbatim>\<open>p->revents = 0\<close> is on the poll descriptor, which is an input here.)
\<close>

definition rtpoll_work_cb :: "work_env \<Rightarrow> session \<Rightarrow> int \<times> session \<times> log_msg list" where
  "rtpoll_work_cb env s =
     (if (in_revents env AND (POLLERR OR POLLNVAL OR POLLHUP OR POLLOUT)) \<noteq> 0
      then (- 1, s, [Log_bad_revents])
      else if (in_revents env AND POLLIN) = 0 then (0, s, [])
      else (case pa_rtp_recv env s of
              None \<Rightarrow> (0, s, [])
            | Some (s1, chunk) \<Rightarrow>
                (if payload (sdp_info s1) \<noteq> rtp_payload (rtp_context s1) then (0, s1, [])
                 else (case bind_stream env s1 of
                         None \<Rightarrow> (0, s1, [])
                       | Some (s2, lg2) \<Rightarrow>
                           (let (s5, lg) = process_chunk env chunk s2
                            in (1, s5, lg2 @ lg))))))"

definition returned :: "work_env \<Rightarrow> session \<Rightarrow> int" where
  "returned env s = fst (rtpoll_work_cb env s)"

definition session_after :: "work_env \<Rightarrow> session \<Rightarrow> session" where
  "session_after env s = fst (snd (rtpoll_work_cb env s))"

definition logged :: "work_env \<Rightarrow> session \<Rightarrow> log_msg list" where
  "logged env s = snd (snd (rtpoll_work_cb env s))"

text \<open>
  The poll descriptor reports data to read and none of the conditions the callback
  refuses.
\<close>

definition readable :: "work_env \<Rightarrow> bool" where
  "readable env \<longleftrightarrow>
     (in_revents env AND (POLLERR OR POLLNVAL OR POLLHUP OR POLLOUT)) = 0
     \<and> (in_revents env AND POLLIN) \<noteq> 0"

text \<open>The callback run once for each of a list of inputs, in order.\<close>

fun run_work :: "work_env list \<Rightarrow> session \<Rightarrow> session" where
  "run_work [] s = s"
| "run_work (env # envs) s = run_work envs (session_after env s)"

subsection \<open>A sample session and sample packets\<close>

text \<open>
  A 44100 Hz stereo stream of 16-bit samples (4 bytes to the frame) announced with payload
  type 10; a session created at time 100 s that has seen no packet yet, with the intended
  latency of 500 ms and an empty jitter buffer.
\<close>

definition demo_spec :: pa_sample_spec where
  "demo_spec = \<lparr>format = 3, rate = 44100, channels = 2\<rparr>"

definition demo_bytes_to_usec :: "64 word \<Rightarrow> pa_sample_spec \<Rightarrow> pa_usec_t" where
  "demo_bytes_to_usec n sp = ((n div 4) * 1000000) div ucast (rate sp)"

definition demo_session :: session where
  "demo_session =
     \<lparr>sink_input =
        \<lparr>sample_spec = demo_spec, thread_info_sample_spec = demo_spec, underrun_for = 0,
         resampler_input_rate = 44100, rewind_requested = False\<rparr>,
      memblockq = pa_memblockq_new 0 MEMBLOCKQ_MAXLENGTH 88200,
      first_packet = False, ssrc = 0, offset = 0,
      sdp_info =
        \<lparr>origin = ''alice'', session_name = None, payload = 10, sdp_sample_spec = demo_spec\<rparr>,
      rtp_context =
        \<lparr>fd = 5, rtp_payload = 0, rtp_ssrc = 0, rtp_timestamp = 0, frame_size = 4\<rparr>,
      timestamp = 100,
      smoother = pa_smoother_set_time_offset pa_smoother_new 100000000,
      intended_latency = LATENCY_USEC, sink_latency = 0, last_rate_update = 100000000\<rparr>"

text \<open>A packet of payload type 10 and SSRC 7 with the given timestamp and payload.\<close>

definition demo_packet :: "32 word \<Rightarrow> 8 word list \<Rightarrow> rtp_packet" where
  "demo_packet ts bytes =
     \<lparr>pkt_payload = 10, pkt_ssrc = 7, pkt_timestamp = ts, pkt_chunk = bytes\<rparr>"

text \<open>
  The inputs of one run: the packet, the clock in seconds, and the smoother's estimate.
  The sink and the render queue report no delay.
\<close>

definition demo_env :: "rtp_packet \<Rightarrow> int \<Rightarrow> pa_usec_t \<Rightarrow> work_env" where
  "demo_env pkt sec wi =
     \<lparr>in_revents = POLLIN, in_recv = Some pkt, in_now = \<lparr>tv_sec = sec, tv_usec = 0\<rparr>,
      in_cookie = 99, in_smoother_get = wi, in_bytes_to_usec = demo_bytes_to_usec,
      in_sink_latency = Some 0, in_render_delay = 0\<rparr>"

text \<open>The sample session after it has taken the packet with timestamp 1001.\<close>

definition demo_bound :: session where
  "demo_bound = session_after (demo_env (demo_packet 1001 [5, 6, 7, 8]) 100 0) demo_session"

text \<open>
  The sample session after it has taken a packet with timestamp 999, so that it expects
  the timestamp 1000.
\<close>

definition demo_expecting :: session where
  "demo_expecting = session_after (demo_env (demo_packet 999 [0, 0, 0, 0]) 100 0) demo_session"

text \<open>
  The sample session after the packet 1001, with a jitter buffer of at most 6 bytes, of
  which 4 are taken.
\<close>

definition demo_full :: session where
  "demo_full = demo_bound\<lparr>memblockq := (memblockq demo_bound)\<lparr>maxlength := 6\<rparr>\<rparr>"

text \<open>
  Three packets of one frame each with the timestamps 1000, 1001 and 1002, in that order
  and with the first two exchanged.
\<close>

definition demo_in_order :: "work_env list" where
  "demo_in_order =
     [demo_env (demo_packet 1000 [1, 2, 3, 4]) 100 0,
      demo_env (demo_packet 1001 [5, 6, 7, 8]) 100 0,
      demo_env (demo_packet 1002 [9, 10, 11, 12]) 100 0]"

definition demo_reordered :: "work_env list" where
  "demo_reordered =
     [demo_env (demo_packet 1001 [5, 6, 7, 8]) 100 0,
      demo_env (demo_packet 1000 [1, 2, 3, 4]) 100 0,
      demo_env (demo_packet 1002 [9, 10, 11, 12]) 100 0]"

subsection \<open>The session registry\<close>

text \<open>
  \<^verbatim>\<open>struct userdata\<close>. Sessions live on the C heap and are reached through pointers, from
  the linked list \<^verbatim>\<open>sessions\<close> and from the hash map \<^verbatim>\<open>by_origin\<close>. The model has an
  explicit store \<open>heap\<close> from addresses to sessions; the list and the map hold addresses.
  \<open>allocated\<close> counts the sessions allocated so far and is the address \<^verbatim>\<open>pa_xnew0\<close>
  hands out next. \<open>check_death_event\<close> is the time the death timer is set to.
\<close>

type_synonym addr = nat

record userdata =
  sink_name :: string
  sessions :: "addr list"
  by_origin :: "string \<rightharpoonup> addr"
  n_sessions :: int
  heap :: "addr \<rightharpoonup> session"
  allocated :: nat
  check_death_event :: timeval

text \<open>
  Modelled from the spec: \<^verbatim>\<open>pa_hashmap\<close> (pulsecore/hashmap.c) is not among the sources.
  The registry is a "mapping origin \<rightarrow> Session"; \<^verbatim>\<open>pa_hashmap_get\<close> is the lookup
  \<open>by_origin u k\<close>, and put and remove are the map updates.
\<close>

definition pa_hashmap_put :: "(string \<rightharpoonup> addr) \<Rightarrow> string \<Rightarrow> addr \<Rightarrow> (string \<rightharpoonup> addr)" where
  "pa_hashmap_put h k a = h(k \<mapsto> a)"

definition pa_hashmap_remove :: "(string \<rightharpoonup> addr) \<Rightarrow> string \<Rightarrow> (string \<rightharpoonup> addr)" where
  "pa_hashmap_remove h k = h(k := None)"

text \<open>The ways \<^verbatim>\<open>session_new\<close> fails (it returns \<^verbatim>\<open>NULL\<close> after logging the reason).\<close>

datatype error =
    Session_limit_reached
  | Sink_does_not_exist
  | Socket_failed
  | Sink_input_failed

text \<open>
  What \<^verbatim>\<open>session_new\<close> reads from outside: whether \<^verbatim>\<open>pa_namereg_get\<close> finds the sink,
  the clock, the descriptor \<^verbatim>\<open>mcast_socket\<close> returns (negative on failure), the sink
  input \<^verbatim>\<open>pa_sink_input_new\<close> creates (\<open>None\<close> on failure), the latency the sink grants,
  and the functions \<^verbatim>\<open>pa_frame_size\<close> and \<^verbatim>\<open>pa_usec_to_bytes\<close> (pulse/sample.c, not
  among the sources).
\<close>

record new_env =
  ne_sink :: bool
  ne_now :: timeval
  ne_fd :: int
  ne_sink_input :: "pa_sink_input option"
  ne_granted_latency :: pa_usec_t
  ne_frame_size :: "pa_sample_spec \<Rightarrow> nat"
  ne_usec_to_bytes :: "pa_usec_t \<Rightarrow> pa_sample_spec \<Rightarrow> nat"

text \<open>
  \<^verbatim>\<open>session_new\<close>: the error or the address of the new session, and the registry
  afterwards. Every failure leaves the registry as it was (the session record and the
  socket are released).
\<close>

definition session_new :: "new_env \<Rightarrow> pa_sdp_info \<Rightarrow> userdata \<Rightarrow> (error + addr) \<times> userdata" where
  "session_new env info u =
     (if n_sessions u \<ge> MAX_SESSIONS then (Inl Session_limit_reached, u)
      else if \<not> ne_sink env then (Inl Sink_does_not_exist, u)
      else if ne_fd env < 0 then (Inl Socket_failed, u)
      else (case ne_sink_input env of
              None \<Rightarrow> (Inl Sink_input_failed, u)
            | Some si \<Rightarrow>
                (let now = pa_timeval_load (ne_now env);
                     granted = ne_granted_latency env;
                     intended = (if LATENCY_USEC < granted * 2 then granted * 2
                                 else LATENCY_USEC);
                     s = \<lparr>sink_input = si,
                          memblockq =
                            pa_memblockq_new 0 MEMBLOCKQ_MAXLENGTH
                              (ne_usec_to_bytes env (intended - granted) (sample_spec si)),
                          first_packet = False, ssrc = 0, offset = 0,
                          sdp_info = info,
                          rtp_context =
                            \<lparr>fd = ne_fd env, rtp_payload = 0, rtp_ssrc = 0, rtp_timestamp = 0,
                             frame_size = ne_frame_size env (sdp_sample_spec info)\<rparr>,
                          timestamp = word_of_int (tv_sec (ne_now env)),
                          smoother = pa_smoother_set_time_offset pa_smoother_new now,
                          intended_latency = intended,
                          sink_latency = granted,
                          last_rate_update = now\<rparr>;
                     a = allocated u
                 in (Inr a,
                     u\<lparr>heap := (heap u)(a \<mapsto> s),
                       allocated := Suc a,
                       by_origin := pa_hashmap_put (by_origin u) (origin info) a,
                       n_sessions := n_sessions u + 1,
                       sessions := a # sessions u\<rparr>))))"

text \<open>
  \<^verbatim>\<open>session_free\<close>. \<open>None\<close> stands for the abort of \<^verbatim>\<open>pa_assert(n_sessions >= 1)\<close>, and
  for a pointer to no live session.
\<close>

definition session_free :: "addr \<Rightarrow> userdata \<Rightarrow> userdata option" where
  "session_free a u =
     (case heap u a of
        None \<Rightarrow> None
      | Some s \<Rightarrow>
          if n_sessions u \<ge> 1
          then Some (u\<lparr>sessions := remove1 a (sessions u),
                       n_sessions := n_sessions u - 1,
                       by_origin := pa_hashmap_remove (by_origin u) (origin (sdp_info s)),
                       heap := (heap u)(a := None)\<rparr>)
          else None)"

text \<open>
  What \<^verbatim>\<open>sap_event_cb\<close> reads from outside: the result of \<^verbatim>\<open>pa_sap_recv\<close> (\<open>None\<close> on
  failure, otherwise the goodbye flag), the result of \<^verbatim>\<open>pa_sdp_parse\<close> (\<open>None\<close> on
  failure), the inputs of \<^verbatim>\<open>session_new\<close>, and the clock.
\<close>

record sap_in =
  sap_recv :: "bool option"
  sdp_parse :: "pa_sdp_info option"
  sap_new :: new_env
  sap_now :: timeval

text \<open>\<^verbatim>\<open>sap_event_cb\<close>: goodbye, new session, or keep-alive.\<close>

definition sap_event_cb :: "sap_in \<Rightarrow> userdata \<Rightarrow> userdata option" where
  "sap_event_cb ev u =
     (case sap_recv ev of
        None \<Rightarrow> Some u
      | Some goodbye \<Rightarrow>
          (case sdp_parse ev of
             None \<Rightarrow> Some u
           | Some info \<Rightarrow>
               if goodbye then
                 (case by_origin u (origin info) of
                    None \<Rightarrow> Some u
                  | Some a \<Rightarrow> session_free a u)
               else
                 (case by_origin u (origin info) of
                    None \<Rightarrow> Some (snd (session_new (sap_new ev) info u))
                  | Some a \<Rightarrow>
                      (case heap u a of
                         None \<Rightarrow> None
                       | Some s \<Rightarrow>
                           Some (u\<lparr>heap := (heap u)
                                     (a \<mapsto> s\<lparr>timestamp :=
                                                word_of_int (tv_sec (sap_now ev))\<rparr>)\<rparr>)))))"

text \<open>
  The loop of \<^verbatim>\<open>check_death_event_cb\<close> over the sessions that are in the list when it
  starts. Each step reads the session's \<open>timestamp\<close> (\<^verbatim>\<open>pa_atomic_load\<close>) and frees the
  session if \<^verbatim>\<open>k + DEATH_TIMEOUT < now.tv_sec\<close>. The sum is of two C \<^verbatim>\<open>int\<close>s and is
  taken in 32 bits, wrapping around as the compiled code does for a timestamp within 20
  seconds of \<open>2 ^ 31\<close>; the comparison with the \<^verbatim>\<open>time_t\<close> is of signed values.
\<close>

fun reap :: "timeval \<Rightarrow> addr list \<Rightarrow> userdata \<Rightarrow> userdata option" where
  "reap now [] u = Some u"
| "reap now (a # as) u =
     (case heap u a of
        None \<Rightarrow> None
      | Some s \<Rightarrow>
          if sint (timestamp s + word_of_int DEATH_TIMEOUT) < tv_sec now
          then (case session_free a u of None \<Rightarrow> None | Some u' \<Rightarrow> reap now as u')
          else reap now as u)"

text \<open>
  \<^verbatim>\<open>check_death_event_cb\<close>, given the clock (\<^verbatim>\<open>pa_rtclock_get\<close>) and the time of day
  (\<^verbatim>\<open>pa_gettimeofday\<close>): the loop, then the timer is restarted.
\<close>

definition check_death_event_cb :: "timeval \<Rightarrow> timeval \<Rightarrow> userdata \<Rightarrow> userdata option" where
  "check_death_event_cb now tv u =
     (case reap now (sessions u) u of
        None \<Rightarrow> None
      | Some u' \<Rightarrow>
          Some (u'\<lparr>check_death_event :=
                     pa_timeval_add tv (word_of_int DEATH_TIMEOUT * PA_USEC_PER_SEC)\<rparr>))"

text \<open>
  The registry \<^verbatim>\<open>pa__init\<close> sets up when it succeeds, given the sink's name and the time
  of day.
\<close>

definition pa__init :: "string \<Rightarrow> timeval \<Rightarrow> userdata" where
  "pa__init name tv =
     \<lparr>sink_name = name, sessions = [], by_origin = Map.empty, n_sessions = 0,
      heap = Map.empty, allocated = 0,
      check_death_event = pa_timeval_add tv (word_of_int DEATH_TIMEOUT * PA_USEC_PER_SEC)\<rparr>"

text \<open>
  The events that reach the module: a packet on the SAP socket, the death timer, the sink
  killing the sink input of a live session (\<^verbatim>\<open>sink_input_kill\<close>), and a run of
  \<^verbatim>\<open>rtpoll_work_cb\<close> for a live session. \<open>run\<close> handles a list of events in order.
\<close>

datatype event =
    Sap sap_in
  | Death_check timeval timeval
  | Kill addr
  | Work addr work_env

fun handle :: "event \<Rightarrow> userdata \<Rightarrow> userdata option" where
  "handle (Sap ev) u = sap_event_cb ev u"
| "handle (Death_check now tv) u = check_death_event_cb now tv u"
| "handle (Kill a) u = (if a \<in> set (sessions u) then session_free a u else Some u)"
| "handle (Work a env) u =
     (case heap u a of
        None \<Rightarrow> Some u
      | Some s \<Rightarrow> Some (u\<lparr>heap := (heap u)(a \<mapsto> session_after env s)\<rparr>))"

fun run :: "event list \<Rightarrow> userdata \<Rightarrow> userdata option" where
  "run [] u = Some u"
| "run (e # es) u = (case handle e u of None \<Rightarrow> None | Some u' \<Rightarrow> run es u')"

text \<open>
  The list, the map and the counter agree: the list has no address twice and as many
  entries as the counter says; every session in the list is live and the map leads from
  its origin to it; the map leads only to sessions in the list, each under its own origin;
  all their addresses have been allocated.
\<close>

definition registry_ok :: "userdata \<Rightarrow> bool" where
  "registry_ok u \<longleftrightarrow>
     distinct (sessions u)
     \<and> n_sessions u = int (length (sessions u))
     \<and> (\<forall>a \<in> set (sessions u).
           a < allocated u
           \<and> (\<exists>s. heap u a = Some s \<and> by_origin u (origin (sdp_info s)) = Some a))
     \<and> (\<forall>k a. by_origin u k = Some a \<longrightarrow>
           a \<in> set (sessions u) \<and> (\<exists>s. heap u a = Some s \<and> origin (sdp_info s) = k))"

text \<open>
  The test of the death-check loop for the session at an address:
  \<^verbatim>\<open>k + DEATH_TIMEOUT < now.tv_sec\<close>, with the sum taken in 32 bits.
\<close>

definition expired :: "timeval \<Rightarrow> userdata \<Rightarrow> addr \<Rightarrow> bool" where
  "expired now u a =
     (case heap u a of
        None \<Rightarrow> False
      | Some s \<Rightarrow> sint (timestamp s + word_of_int DEATH_TIMEOUT) < tv_sec now)"

subsection \<open>Sample announcements\<close>

text \<open>
  The inputs of \<^verbatim>\<open>session_new\<close> when everything succeeds at the given time: the sink
  exists, the socket is descriptor 5, the sink input is that of the sample session, and
  the sink grants a latency of 100 ms.
\<close>

definition demo_new_env :: "int \<Rightarrow> new_env" where
  "demo_new_env sec =
     \<lparr>ne_sink = True, ne_now = \<lparr>tv_sec = sec, tv_usec = 0\<rparr>, ne_fd = 5,
      ne_sink_input = Some (sink_input demo_session), ne_granted_latency = 100000,
      ne_frame_size = (\<lambda>sp. 2 * unat (channels sp)),
      ne_usec_to_bytes = (\<lambda>t sp. 4 * unat ((t * ucast (rate sp)) div 1000000))\<rparr>"

text \<open>An announcement (or a goodbye) from the given origin at the given time.\<close>

definition demo_sdp :: "string \<Rightarrow> pa_sdp_info" where
  "demo_sdp name =
     \<lparr>origin = name, session_name = None, payload = 10, sdp_sample_spec = demo_spec\<rparr>"

definition demo_sap :: "bool \<Rightarrow> string \<Rightarrow> int \<Rightarrow> sap_in" where
  "demo_sap goodbye name sec =
     \<lparr>sap_recv = Some goodbye, sdp_parse = Some (demo_sdp name),
      sap_new = demo_new_env sec, sap_now = \<lparr>tv_sec = sec, tv_usec = 0\<rparr>\<rparr>"


definition demo_sixteen :: "event list" where
  "demo_sixteen =
     map (\<lambda>name. Sap (demo_sap False name 100))
       [''a'', ''b'', ''c'', ''d'', ''e'', ''f'', ''g'', ''h'',
        ''i'', ''j'', ''k'', ''l'', ''m'', ''n'', ''o'', ''p'']"

definition demo_full_registry :: userdata where
  "demo_full_registry = the (run demo_sixteen (pa__init ''sink'' \<lparr>tv_sec = 0, tv_usec = 0\<rparr>))"


section \<open>Theorems\<close>

subsection \<open>What each step of the callback leaves alone\<close>

lemma update_rate_frame:
  "memblockq (fst (update_rate env s)) = memblockq s"
  "offset (fst (update_rate env s)) = offset s"
  "ssrc (fst (update_rate env s)) = ssrc s"
  "first_packet (fst (update_rate env s)) = first_packet s"
  "timestamp (fst (update_rate env s)) = timestamp s"
  "smoother (fst (update_rate env s)) = smoother s"
  "sdp_info (fst (update_rate env s)) = sdp_info s"
  "rtp_context (fst (update_rate env s)) = rtp_context s"
  by (simp_all add: update_rate_def Let_def)

lemma request_rewind_frame:
  "memblockq (fst (request_rewind s)) = memblockq s"
  "offset (fst (request_rewind s)) = offset s"
  "ssrc (fst (request_rewind s)) = ssrc s"
  "first_packet (fst (request_rewind s)) = first_packet s"
  "timestamp (fst (request_rewind s)) = timestamp s"
  "smoother (fst (request_rewind s)) = smoother s"
  "sdp_info (fst (request_rewind s)) = sdp_info s"
  "rtp_context (fst (request_rewind s)) = rtp_context s"
  "last_rate_update (fst (request_rewind s)) = last_rate_update s"
  "sample_spec (sink_input (fst (request_rewind s))) = sample_spec (sink_input s)"
  "resampler_input_rate (sink_input (fst (request_rewind s))) = resampler_input_rate (sink_input s)"
  by (simp_all add: request_rewind_def)

lemma enqueue_frame:
  "ssrc (fst (enqueue env chunk s)) = ssrc s"
  "first_packet (fst (enqueue env chunk s)) = first_packet s"
  "sdp_info (fst (enqueue env chunk s)) = sdp_info s"
  "rtp_context (fst (enqueue env chunk s)) = rtp_context s"
  "sink_input (fst (enqueue env chunk s)) = sink_input s"
  "last_rate_update (fst (enqueue env chunk s)) = last_rate_update s"
  "offset (fst (enqueue env chunk s)) = rtp_timestamp (rtp_context s) + of_nat (length chunk div frame_size (rtp_context s))"
  "timestamp (fst (enqueue env chunk s)) = word_of_int (tv_sec (in_now env))"
  by (simp_all add: enqueue_def Let_def case_prod_beta)

lemma process_chunk_frame:
  "ssrc (fst (process_chunk env chunk s)) = ssrc s"
  "first_packet (fst (process_chunk env chunk s)) = first_packet s"
  "sdp_info (fst (process_chunk env chunk s)) = sdp_info s"
  "rtp_context (fst (process_chunk env chunk s)) = rtp_context s"
  "memblockq (fst (process_chunk env chunk s)) = memblockq (fst (enqueue env chunk s))"
  "smoother (fst (process_chunk env chunk s)) = smoother (fst (enqueue env chunk s))"
  "offset (fst (process_chunk env chunk s)) = rtp_timestamp (rtp_context s) + of_nat (length chunk div frame_size (rtp_context s))"
  "timestamp (fst (process_chunk env chunk s)) = word_of_int (tv_sec (in_now env))"
  by (simp_all add: process_chunk_def Let_def case_prod_beta update_rate_frame request_rewind_frame enqueue_frame)

lemma work_mismatch:
  assumes "readable env" "in_recv env = Some pkt" "pkt_payload pkt \<noteq> payload (sdp_info s)"
  shows "rtpoll_work_cb env s =
     (0, s\<lparr>rtp_context := (rtp_context s)\<lparr>rtp_payload := pkt_payload pkt,
                      rtp_ssrc := pkt_ssrc pkt, rtp_timestamp := pkt_timestamp pkt\<rparr>\<rparr>, [])"
  using assms by (auto simp add: rtpoll_work_cb_def readable_def pa_rtp_recv_def)

lemma work_foreign:
  assumes "readable env" "in_recv env = Some pkt" "pkt_payload pkt = payload (sdp_info s)"
     "first_packet s" "pkt_ssrc pkt \<noteq> ssrc s"
  shows "rtpoll_work_cb env s =
     (0, s\<lparr>rtp_context := (rtp_context s)\<lparr>rtp_payload := pkt_payload pkt,
                      rtp_ssrc := pkt_ssrc pkt, rtp_timestamp := pkt_timestamp pkt\<rparr>\<rparr>, [])"
  using assms by (auto simp add: rtpoll_work_cb_def readable_def pa_rtp_recv_def bind_stream_def)

lemma pa_rtp_recv_frame:
  assumes "pa_rtp_recv env s = Some (s1, chunk)"
  shows "memblockq s1 = memblockq s" "offset s1 = offset s" "ssrc s1 = ssrc s"
    "first_packet s1 = first_packet s" "timestamp s1 = timestamp s" "smoother s1 = smoother s"
    "sdp_info s1 = sdp_info s" "sink_input s1 = sink_input s"
    "last_rate_update s1 = last_rate_update s" "intended_latency s1 = intended_latency s"
    "frame_size (rtp_context s1) = frame_size (rtp_context s)"
  using assms by (auto simp add: pa_rtp_recv_def split: option.splits)

lemma pa_rtp_recv_Some:
  assumes "in_recv env = Some pkt"
  shows "\<exists>s1. pa_rtp_recv env s = Some (s1, pkt_chunk pkt)
     \<and> rtp_payload (rtp_context s1) = pkt_payload pkt
     \<and> rtp_ssrc (rtp_context s1) = pkt_ssrc pkt
     \<and> rtp_timestamp (rtp_context s1) = pkt_timestamp pkt"
  using assms by (simp add: pa_rtp_recv_def)

lemma bind_stream_frame:
  assumes "bind_stream env s1 = Some (s2, lg2)"
  shows "memblockq s2 = memblockq s1" "timestamp s2 = timestamp s1" "smoother s2 = smoother s1"
    "sdp_info s2 = sdp_info s1" "sink_input s2 = sink_input s1" "rtp_context s2 = rtp_context s1"
    "last_rate_update s2 = last_rate_update s1" "intended_latency s2 = intended_latency s1"
    "first_packet s2"
    "ssrc s2 = (if first_packet s1 then ssrc s1 else rtp_ssrc (rtp_context s1))"
    "offset s2 = (if first_packet s1 then offset s1 else rtp_timestamp (rtp_context s1))"
  using assms by (auto simp add: bind_stream_def Let_def split: if_splits)

lemma bind_stream_Some:
  assumes "first_packet s1 \<Longrightarrow> rtp_ssrc (rtp_context s1) = ssrc s1"
  shows "\<exists>s2 lg2. bind_stream env s1 = Some (s2, lg2)"
  using assms by (auto simp add: bind_stream_def Let_def)

lemma work_accepted:
  assumes "readable env" "pa_rtp_recv env s = Some (s1, chunk)"
    "payload (sdp_info s1) = rtp_payload (rtp_context s1)"
    "bind_stream env s1 = Some (s2, lg2)"
  shows "rtpoll_work_cb env s =
     (1, fst (process_chunk env chunk s2), lg2 @ snd (process_chunk env chunk s2))"
  using assms by (simp add: rtpoll_work_cb_def readable_def case_prod_beta)

lemma enqueue_memblockq:
  "memblockq (fst (enqueue env chunk s)) =
     (let q1 = pa_memblockq_seek (memblockq s)
                 (timestamp_delta (offset s) (rtp_timestamp (rtp_context s))
                    * int (frame_size (rtp_context s)))
      in case pa_memblockq_push q1 chunk of
           None \<Rightarrow> pa_memblockq_seek q1 (int (length chunk))
         | Some q \<Rightarrow> q)"
  by (simp add: enqueue_def Let_def case_prod_beta split: option.splits)

subsection \<open>Timestamp reconciliation\<close>

lemma timestamp_delta_abs:
  "timestamp_delta e t =
     (if \<bar>delta_k e t\<bar> < \<bar>delta_j e t\<bar> then delta_k e t else delta_j e t)"
  by (simp add: timestamp_delta_def Let_def abs_if)

text \<open>
  Claim C3. For every pair of 32-bit values (expected timestamp \<open>e\<close>, received timestamp
  \<open>t\<close>) the callback computes the direct signed difference \<open>t - e\<close> and the difference
  \<open>2 ^ 32 - e + t\<close> that assumes one wrap-around of the 32-bit counter, and the delta it
  seeks by is the one of the two with the smaller absolute value (the wrap-around one
  when they tie). For \<open>e = 0xFFFFFFF0\<close> and \<open>t = 0x00000010\<close> the delta is \<open>+32\<close>.
\<close>

theorem timestamp_delta_smaller_magnitude:
  "delta_k e t = uint t - uint e
   \<and> delta_j e t = 2 ^ 32 - uint e + uint t
   \<and> timestamp_delta e t =
       (if \<bar>delta_k e t\<bar> < \<bar>delta_j e t\<bar> then delta_k e t else delta_j e t)
   \<and> \<bar>timestamp_delta e t\<bar> = min \<bar>delta_k e t\<bar> \<bar>delta_j e t\<bar>
   \<and> timestamp_delta 0xFFFFFFF0 0x00000010 = 32"
proof -
  have a: "timestamp_delta e t =
      (if \<bar>delta_k e t\<bar> < \<bar>delta_j e t\<bar> then delta_k e t else delta_j e t)"
    by (rule timestamp_delta_abs)
  have b: "\<bar>timestamp_delta e t\<bar> = min \<bar>delta_k e t\<bar> \<bar>delta_j e t\<bar>"
    unfolding a by (simp add: min_def)
  have c: "timestamp_delta 0xFFFFFFF0 0x00000010 = 32"
    by (simp add: timestamp_delta_def delta_k_def delta_j_def)
  show ?thesis
    using a b c by (simp add: delta_k_def delta_j_def)
qed

subsection \<open>Evaluating the sample session\<close>

lemmas demo_defs = demo_spec_def demo_bytes_to_usec_def demo_session_def demo_env_def demo_packet_def
  POLLIN_def POLLOUT_def POLLERR_def POLLHUP_def POLLNVAL_def
  LATENCY_USEC_def RATE_UPDATE_INTERVAL_def PA_USEC_PER_SEC_def PA_USEC_PER_MSEC_def MEMBLOCKQ_MAXLENGTH_def
  pa_memblockq_new_def pa_smoother_new_def pa_smoother_set_time_offset_def

lemmas cb_defs = rtpoll_work_cb_def process_chunk_def pa_rtp_recv_def bind_stream_def enqueue_def update_rate_def
  request_rewind_def measured_latency_def deviation_def fix_samples_def fix_too_large_def
  pa_memblockq_seek_def pa_memblockq_push_def pa_memblockq_get_write_index_def
  pa_memblockq_get_read_index_def pa_memblockq_is_readable_def pa_smoother_put_def pa_timeval_load_def
  pa_memblockq_get_length_def timestamp_delta_def delta_k_def delta_j_def

lemma demo_bound_eq:
  "demo_bound = demo_session
     \<lparr>memblockq := \<lparr>read_index = 0, write_index = 4, maxlength = 41943040, prebuf = 88200,
                     stored = [(0, 5), (1, 6), (2, 7), (3, 8)]\<rparr>,
      first_packet := True, ssrc := 7, offset := 1002,
      rtp_context := \<lparr>fd = 5, rtp_payload = 10, rtp_ssrc = 7, rtp_timestamp = 1001, frame_size = 4\<rparr>,
      smoother := \<lparr>time_offset = 100000000, samples = [(100000000, 0)]\<rparr>\<rparr>"
  by (simp add: demo_bound_def session_after_def cb_defs demo_defs Let_def)

lemma work_offset:
  assumes "readable env" and "in_recv env = Some pkt"
    and "pkt_payload pkt = payload (sdp_info s)"
    and "first_packet s \<longrightarrow> pkt_ssrc pkt = ssrc s"
  shows "returned env s = 1"
    and "offset (session_after env s) =
       pkt_timestamp pkt + of_nat (length (pkt_chunk pkt) div frame_size (rtp_context s))"
    and "first_packet (session_after env s)"
    and "ssrc (session_after env s) = pkt_ssrc pkt"
    and "timestamp (session_after env s) = word_of_int (tv_sec (in_now env))"
proof -
  obtain s1 where s1: "pa_rtp_recv env s = Some (s1, pkt_chunk pkt)"
    "rtp_payload (rtp_context s1) = pkt_payload pkt" "rtp_ssrc (rtp_context s1) = pkt_ssrc pkt"
    "rtp_timestamp (rtp_context s1) = pkt_timestamp pkt"
    using pa_rtp_recv_Some [OF assms(2)] by blast
  note f1 = pa_rtp_recv_frame [OF s1(1)]
  have "first_packet s1 \<Longrightarrow> rtp_ssrc (rtp_context s1) = ssrc s1"
    using assms(4) f1 s1 by simp
  then obtain s2 lg2 where s2: "bind_stream env s1 = Some (s2, lg2)"
    using bind_stream_Some by blast
  note f2 = bind_stream_frame [OF s2]
  have pl: "payload (sdp_info s1) = rtp_payload (rtp_context s1)"
    using assms(3) f1 s1 by simp
  note w = work_accepted [OF assms(1) s1(1) pl s2]
  show "returned env s = 1" by (simp add: returned_def w)
  show "offset (session_after env s) =
       pkt_timestamp pkt + of_nat (length (pkt_chunk pkt) div frame_size (rtp_context s))"
    by (simp add: session_after_def w process_chunk_frame f2 f1 s1)
  show "first_packet (session_after env s)"
    by (simp add: session_after_def w process_chunk_frame f2)
  show "ssrc (session_after env s) = pkt_ssrc pkt"
    using assms(4) by (simp add: session_after_def w process_chunk_frame f2 f1 s1)
  show "timestamp (session_after env s) = word_of_int (tv_sec (in_now env))"
    by (simp add: session_after_def w process_chunk_frame)
qed

subsection \<open>Packets of another payload type\<close>

text \<open>
  Claim C5. A packet that is received and decoded but whose payload type differs from the
  session's (\<^verbatim>\<open>s->sdp_info.payload != s->rtp_context.payload\<close>) makes the callback
  return 0 with nothing logged; the jitter buffer (so its occupancy and its write cursor),
  the expected timestamp \<open>offset\<close>, the smoother and the last-seen time \<open>timestamp\<close> are
  as before.
\<close>

theorem payload_mismatch_dropped:
  assumes "readable env" and "in_recv env = Some pkt"
    and "pkt_payload pkt \<noteq> payload (sdp_info s)"
  shows "returned env s = 0
    \<and> logged env s = []
    \<and> pa_memblockq_get_length (memblockq (session_after env s))
         = pa_memblockq_get_length (memblockq s)
    \<and> write_index (memblockq (session_after env s)) = write_index (memblockq s)
    \<and> memblockq (session_after env s) = memblockq s
    \<and> offset (session_after env s) = offset s
    \<and> smoother (session_after env s) = smoother s
    \<and> timestamp (session_after env s) = timestamp s"
  by (simp add: returned_def logged_def session_after_def work_mismatch [OF assms])

theorem payload_mismatch_dropped_witness:
  "readable (demo_env (demo_packet 1000 [1, 2, 3, 4]\<lparr>pkt_payload := 11\<rparr>) 100 0)
   \<and> pkt_payload (demo_packet 1000 [1, 2, 3, 4]\<lparr>pkt_payload := 11\<rparr>) \<noteq> payload (sdp_info demo_session)
   \<and> returned (demo_env (demo_packet 1000 [1, 2, 3, 4]\<lparr>pkt_payload := 11\<rparr>) 100 0) demo_session = 0
   \<and> memblockq (session_after (demo_env (demo_packet 1000 [1, 2, 3, 4]\<lparr>pkt_payload := 11\<rparr>) 100 0) demo_session)
       = memblockq demo_session
   \<and> offset (session_after (demo_env (demo_packet 1000 [1, 2, 3, 4]\<lparr>pkt_payload := 11\<rparr>) 100 0) demo_session) = 0"
  using payload_mismatch_dropped [of "demo_env (demo_packet 1000 [1, 2, 3, 4]\<lparr>pkt_payload := 11\<rparr>) 100 0"
      "demo_packet 1000 [1, 2, 3, 4]\<lparr>pkt_payload := 11\<rparr>" demo_session]
  by (simp add: readable_def demo_defs)

subsection \<open>The next expected timestamp\<close>

text \<open>
  Claim C9, as amended. After a packet is accepted (payload type of the session, and the
  session's SSRC if the session is bound), the expected timestamp \<open>offset\<close> is the
  timestamp of that packet plus the number of frames in its payload, modulo \<open>2 ^ 32\<close>
  (line 257). This is the previous expected timestamp plus the number of frames when the
  packet's timestamp is the expected one.
\<close>

theorem expected_timestamp_follows_packet:
  assumes "readable env" and "in_recv env = Some pkt"
    and "pkt_payload pkt = payload (sdp_info s)"
    and "first_packet s \<longrightarrow> pkt_ssrc pkt = ssrc s"
  shows "offset (session_after env s) =
           pkt_timestamp pkt + of_nat (length (pkt_chunk pkt) div frame_size (rtp_context s))
    \<and> unat (offset (session_after env s)) =
           (unat (pkt_timestamp pkt) + length (pkt_chunk pkt) div frame_size (rtp_context s)) mod 2 ^ 32
    \<and> (pkt_timestamp pkt = offset s \<longrightarrow>
         offset (session_after env s) =
           offset s + of_nat (length (pkt_chunk pkt) div frame_size (rtp_context s)))"
proof -
  have a: "offset (session_after env s) =
           pkt_timestamp pkt + of_nat (length (pkt_chunk pkt) div frame_size (rtp_context s))"
    by (rule work_offset(2) [OF assms])
  have b: "unat (x + of_nat n :: 32 word) = (unat x + n) mod 2 ^ 32" for x n
    by (simp add: unat_word_ariths unat_of_nat mod_add_right_eq)
  show ?thesis
    unfolding a using b by simp
qed

theorem expected_timestamp_follows_packet_witness:
  "readable (demo_env (demo_packet 1002 [9, 10, 11, 12]) 100 0)
   \<and> pkt_timestamp (demo_packet 1002 [9, 10, 11, 12]) = offset demo_bound
   \<and> offset (session_after (demo_env (demo_packet 1002 [9, 10, 11, 12]) 100 0) demo_bound) = 1003"
  using expected_timestamp_follows_packet [of "demo_env (demo_packet 1002 [9, 10, 11, 12]) 100 0"
      "demo_packet 1002 [9, 10, 11, 12]" demo_bound]
  by (simp add: readable_def demo_bound_eq demo_defs)

text \<open>
  Claim C9 as stated fails for a packet that is not the expected one. The sample session
  bound by the packet 1001 expects 1002; the late packet 1000 with one frame is accepted
  and leaves the expected timestamp at 1001, not at \<open>1002 + 1\<close>.
\<close>

theorem expected_timestamp_not_advanced_from_previous:
  "readable (demo_env (demo_packet 1000 [1, 2, 3, 4]) 100 0)
   \<and> returned (demo_env (demo_packet 1000 [1, 2, 3, 4]) 100 0) demo_bound = 1
   \<and> offset demo_bound = 1002
   \<and> length (pkt_chunk (demo_packet 1000 [1, 2, 3, 4])) div frame_size (rtp_context demo_bound) = 1
   \<and> offset (session_after (demo_env (demo_packet 1000 [1, 2, 3, 4]) 100 0) demo_bound) = 1001
   \<and> offset (session_after (demo_env (demo_packet 1000 [1, 2, 3, 4]) 100 0) demo_bound)
        \<noteq> offset demo_bound
            + of_nat (length (pkt_chunk (demo_packet 1000 [1, 2, 3, 4]))
                        div frame_size (rtp_context demo_bound))"
  by (simp add: readable_def returned_def session_after_def demo_bound_eq cb_defs demo_defs Let_def)

subsection \<open>Binding to the stream identifier\<close>

lemma work_keeps_binding:
  assumes "first_packet s"
  shows "first_packet (session_after env s) \<and> ssrc (session_after env s) = ssrc s"
proof (cases "\<exists>s1 chunk s2 lg2. readable env \<and> pa_rtp_recv env s = Some (s1, chunk)
    \<and> payload (sdp_info s1) = rtp_payload (rtp_context s1) \<and> bind_stream env s1 = Some (s2, lg2)")
  case True
  then obtain s1 chunk s2 lg2 where h: "readable env" "pa_rtp_recv env s = Some (s1, chunk)"
    "payload (sdp_info s1) = rtp_payload (rtp_context s1)" "bind_stream env s1 = Some (s2, lg2)"
    by blast
  note f1 = pa_rtp_recv_frame [OF h(2)]
  note f2 = bind_stream_frame [OF h(4)]
  show ?thesis
    using assms by (simp add: session_after_def work_accepted [OF h] process_chunk_frame f2 f1)
next
  case False
  then show ?thesis
    using assms
    by (auto simp add: session_after_def rtpoll_work_cb_def readable_def
        split: option.splits dest: pa_rtp_recv_frame(3,4))
qed

lemma run_work_keeps_binding:
  assumes "first_packet s"
  shows "first_packet (run_work envs s) \<and> ssrc (run_work envs s) = ssrc s"
  using assms
proof (induction envs arbitrary: s)
  case Nil
  then show ?case by simp
next
  case (Cons env envs)
  have "first_packet (session_after env s)" "ssrc (session_after env s) = ssrc s"
    using work_keeps_binding [OF Cons.prems] by simp_all
  then show ?case
    using Cons.IH [of "session_after env s"] by simp
qed

lemma timestamp_delta_same: "timestamp_delta t t = 0"
proof -
  have "uint t < 2 ^ 32" using uint_lt2p [of t] by simp
  then show ?thesis
    by (simp add: timestamp_delta_def delta_k_def delta_j_def Let_def)
qed

lemma work_first_packet_cursor:
  assumes "readable env" and "in_recv env = Some pkt"
    and "pkt_payload pkt = payload (sdp_info s)" and "\<not> first_packet s"
  shows "write_index (memblockq (session_after env s))
           = write_index (memblockq s) + int (length (pkt_chunk pkt))"
proof -
  obtain s1 where s1: "pa_rtp_recv env s = Some (s1, pkt_chunk pkt)"
    "rtp_payload (rtp_context s1) = pkt_payload pkt" "rtp_ssrc (rtp_context s1) = pkt_ssrc pkt"
    "rtp_timestamp (rtp_context s1) = pkt_timestamp pkt"
    using pa_rtp_recv_Some [OF assms(2)] by blast
  note f1 = pa_rtp_recv_frame [OF s1(1)]
  have "first_packet s1 \<Longrightarrow> rtp_ssrc (rtp_context s1) = ssrc s1"
    using assms(4) f1 by simp
  then obtain s2 lg2 where s2: "bind_stream env s1 = Some (s2, lg2)"
    using bind_stream_Some by blast
  note f2 = bind_stream_frame [OF s2]
  have pl: "payload (sdp_info s1) = rtp_payload (rtp_context s1)"
    using assms(3) f1 s1 by simp
  note w = work_accepted [OF assms(1) s1(1) pl s2]
  have off: "offset s2 = rtp_timestamp (rtp_context s2)"
    using f2 f1 assms(4) by simp
  show ?thesis
    using f1(1) f2(1)
    by (simp add: session_after_def w process_chunk_frame enqueue_memblockq off
        timestamp_delta_same Let_def pa_memblockq_seek_def pa_memblockq_push_def
        split: option.splits)
qed

text \<open>
  Claim C7. (1) The first accepted packet of a session (\<open>first_packet\<close> still false)
  binds \<open>ssrc\<close> to the packet's SSRC and sets the expected timestamp \<open>offset\<close> to the
  packet's timestamp before the timestamp check, so the payload goes in at the write
  cursor without a seek, and the callback leaves \<open>offset\<close> at that timestamp plus the
  frames of the payload. (2) From a bound session \<open>b\<close>, no sequence of callback runs
  changes \<open>ssrc\<close> or unbinds the session. (3) A packet received by a bound session whose
  SSRC differs is discarded: the callback returns 0, logs nothing, and the jitter buffer,
  the expected timestamp, the smoother, the last-seen time, the time of the last rate
  update and the sink input are as before.
\<close>

theorem stream_binding:
  "(readable env \<and> in_recv env = Some pkt \<and> pkt_payload pkt = payload (sdp_info s)
      \<and> \<not> first_packet s \<longrightarrow>
        (\<exists>s1 lg. pa_rtp_recv env s = Some (s1, pkt_chunk pkt)
           \<and> bind_stream env s1 =
               Some (s1\<lparr>first_packet := True, ssrc := pkt_ssrc pkt,
                         offset := pkt_timestamp pkt\<rparr>, lg))
        \<and> returned env s = 1
        \<and> first_packet (session_after env s)
        \<and> ssrc (session_after env s) = pkt_ssrc pkt
        \<and> write_index (memblockq (session_after env s))
             = write_index (memblockq s) + int (length (pkt_chunk pkt))
        \<and> offset (session_after env s)
             = pkt_timestamp pkt + of_nat (length (pkt_chunk pkt) div frame_size (rtp_context s)))
   \<and> (first_packet b \<longrightarrow>
        first_packet (run_work envs b) \<and> ssrc (run_work envs b) = ssrc b)
   \<and> (readable envf \<and> in_recv envf = Some pktf \<and> first_packet b \<and> pkt_ssrc pktf \<noteq> ssrc b \<longrightarrow>
        returned envf b = 0
        \<and> logged envf b = []
        \<and> memblockq (session_after envf b) = memblockq b
        \<and> offset (session_after envf b) = offset b
        \<and> smoother (session_after envf b) = smoother b
        \<and> timestamp (session_after envf b) = timestamp b
        \<and> last_rate_update (session_after envf b) = last_rate_update b
        \<and> sink_input (session_after envf b) = sink_input b
        \<and> ssrc (session_after envf b) = ssrc b)"
proof (intro conjI impI)
  assume h: "readable env \<and> in_recv env = Some pkt \<and> pkt_payload pkt = payload (sdp_info s)
      \<and> \<not> first_packet s"
  then have a: "readable env" "in_recv env = Some pkt" "pkt_payload pkt = payload (sdp_info s)"
    "\<not> first_packet s" "first_packet s \<longrightarrow> pkt_ssrc pkt = ssrc s"
    by simp_all
  show "\<exists>s1 lg. pa_rtp_recv env s = Some (s1, pkt_chunk pkt)
           \<and> bind_stream env s1 =
               Some (s1\<lparr>first_packet := True, ssrc := pkt_ssrc pkt,
                         offset := pkt_timestamp pkt\<rparr>, lg)"
    using a by (simp add: pa_rtp_recv_def bind_stream_def Let_def)
  show "returned env s = 1"
    by (rule work_offset(1) [OF a(1,2,3,5)])
  show "first_packet (session_after env s)"
    by (rule work_offset(3) [OF a(1,2,3,5)])
  show "ssrc (session_after env s) = pkt_ssrc pkt"
    by (rule work_offset(4) [OF a(1,2,3,5)])
  show "write_index (memblockq (session_after env s))
             = write_index (memblockq s) + int (length (pkt_chunk pkt))"
    by (rule work_first_packet_cursor [OF a(1,2,3,4)])
  show "offset (session_after env s)
             = pkt_timestamp pkt + of_nat (length (pkt_chunk pkt) div frame_size (rtp_context s))"
    by (rule work_offset(2) [OF a(1,2,3,5)])
next
  assume "first_packet b"
  then show "first_packet (run_work envs b)" "ssrc (run_work envs b) = ssrc b"
    using run_work_keeps_binding by simp_all
next
  assume h: "readable envf \<and> in_recv envf = Some pktf \<and> first_packet b \<and> pkt_ssrc pktf \<noteq> ssrc b"
  have eq: "rtpoll_work_cb envf b =
     (0, b\<lparr>rtp_context := (rtp_context b)\<lparr>rtp_payload := pkt_payload pktf,
                      rtp_ssrc := pkt_ssrc pktf, rtp_timestamp := pkt_timestamp pktf\<rparr>\<rparr>, [])"
  proof (cases "pkt_payload pktf = payload (sdp_info b)")
    case True
    then show ?thesis using h work_foreign by simp
  next
    case False
    then show ?thesis using h work_mismatch by simp
  qed
  show "returned envf b = 0" "logged envf b = []" "memblockq (session_after envf b) = memblockq b"
    "offset (session_after envf b) = offset b" "smoother (session_after envf b) = smoother b"
    "timestamp (session_after envf b) = timestamp b"
    "last_rate_update (session_after envf b) = last_rate_update b"
    "sink_input (session_after envf b) = sink_input b"
    "ssrc (session_after envf b) = ssrc b"
    by (simp_all add: returned_def logged_def session_after_def eq)
qed

theorem stream_binding_witness:
  "readable (demo_env (demo_packet 1001 [5, 6, 7, 8]) 100 0)
   \<and> pkt_payload (demo_packet 1001 [5, 6, 7, 8]) = payload (sdp_info demo_session)
   \<and> \<not> first_packet demo_session
   \<and> first_packet demo_bound
   \<and> readable (demo_env (demo_packet 1002 [9, 10, 11, 12]\<lparr>pkt_ssrc := 8\<rparr>) 100 0)
   \<and> pkt_ssrc (demo_packet 1002 [9, 10, 11, 12]\<lparr>pkt_ssrc := 8\<rparr>) \<noteq> ssrc demo_bound
   \<and> ssrc (session_after (demo_env (demo_packet 1001 [5, 6, 7, 8]) 100 0) demo_session) = 7
   \<and> offset (session_after (demo_env (demo_packet 1001 [5, 6, 7, 8]) 100 0) demo_session) = 1002
   \<and> ssrc (run_work [demo_env (demo_packet 1002 [9, 10, 11, 12]\<lparr>pkt_ssrc := 8\<rparr>) 100 0,
                      demo_env (demo_packet 1002 [9, 10, 11, 12]) 100 0] demo_bound) = 7
   \<and> memblockq (session_after (demo_env (demo_packet 1002 [9, 10, 11, 12]\<lparr>pkt_ssrc := 8\<rparr>) 100 0)
        demo_bound) = memblockq demo_bound
   \<and> offset (session_after (demo_env (demo_packet 1002 [9, 10, 11, 12]\<lparr>pkt_ssrc := 8\<rparr>) 100 0)
        demo_bound) = 1002"
  using stream_binding [of "demo_env (demo_packet 1001 [5, 6, 7, 8]) 100 0"
      "demo_packet 1001 [5, 6, 7, 8]" demo_session demo_bound
      "[demo_env (demo_packet 1002 [9, 10, 11, 12]\<lparr>pkt_ssrc := 8\<rparr>) 100 0,
        demo_env (demo_packet 1002 [9, 10, 11, 12]) 100 0]"
      "demo_env (demo_packet 1002 [9, 10, 11, 12]\<lparr>pkt_ssrc := 8\<rparr>) 100 0"
      "demo_packet 1002 [9, 10, 11, 12]\<lparr>pkt_ssrc := 8\<rparr>"]
  by (simp add: readable_def demo_bound_eq demo_defs)

subsection \<open>The rate update\<close>

lemma update_rate_rate:
  "rate (sample_spec (sink_input (fst (update_rate env s)))) =
     (if measured_latency env s < intended_latency s
      then rate (sample_spec (sink_input s)) - fix_samples env s
      else rate (sample_spec (sink_input s)) + fix_samples env s)"
  "resampler_input_rate (sink_input (fst (update_rate env s))) =
     rate (sample_spec (sink_input (fst (update_rate env s))))"
  "last_rate_update (fst (update_rate env s)) = pa_timeval_load (in_now env)"
  by (simp_all add: update_rate_def Let_def)

lemma update_rate_log:
  "Log_fix_too_large (fix_samples env s) \<in> set (snd (update_rate env s)) \<longleftrightarrow> fix_too_large env s"
  by (simp add: update_rate_def Let_def)

text \<open>
  Claim C2, as amended. At a rate update whose correction is within bounds
  (\<open>fix_samples\<close> at most a fifth of the rate): if the measured latency is below the
  intended latency the rate is lowered by \<open>fix_samples\<close> (without wrapping around);
  otherwise it is raised by \<open>fix_samples\<close> (in \<^verbatim>\<open>uint32_t\<close> arithmetic); the new rate
  is the one given to the resampler.
\<close>

theorem rate_update_direction:
  assumes "\<not> fix_too_large env s"
  shows "(measured_latency env s < intended_latency s \<longrightarrow>
            rate (sample_spec (sink_input (fst (update_rate env s))))
              = rate (sample_spec (sink_input s)) - fix_samples env s
            \<and> unat (rate (sample_spec (sink_input (fst (update_rate env s)))))
              = unat (rate (sample_spec (sink_input s))) - unat (fix_samples env s))
    \<and> (\<not> measured_latency env s < intended_latency s \<longrightarrow>
            rate (sample_spec (sink_input (fst (update_rate env s))))
              = rate (sample_spec (sink_input s)) + fix_samples env s
            \<and> unat (rate (sample_spec (sink_input (fst (update_rate env s)))))
              = (unat (rate (sample_spec (sink_input s))) + unat (fix_samples env s)) mod 2 ^ 32)
    \<and> resampler_input_rate (sink_input (fst (update_rate env s)))
         = rate (sample_spec (sink_input (fst (update_rate env s))))"
proof -
  have le: "unat (fix_samples env s) \<le> unat (rate (sample_spec (sink_input s)))"
    using assms by (simp add: fix_too_large_def)
  then have "fix_samples env s \<le> rate (sample_spec (sink_input s))"
    by (simp add: word_le_nat_alt)
  then have sub: "unat (rate (sample_spec (sink_input s)) - fix_samples env s)
      = unat (rate (sample_spec (sink_input s))) - unat (fix_samples env s)"
    by (rule unat_sub)
  have add: "unat (x + y :: 32 word) = (unat x + unat y) mod 2 ^ 32" for x y
    by (simp add: unat_word_ariths)
  show ?thesis
    by (simp add: update_rate_rate sub add)
qed

theorem rate_update_direction_witness:
  "\<not> fix_too_large (demo_env (demo_packet 1002 [9, 10, 11, 12]) 106 400000) demo_bound
   \<and> measured_latency (demo_env (demo_packet 1002 [9, 10, 11, 12]) 106 400000) demo_bound
       < intended_latency demo_bound
   \<and> rate (sample_spec (sink_input
        (fst (update_rate (demo_env (demo_packet 1002 [9, 10, 11, 12]) 106 400000) demo_bound))))
       = 43218
   \<and> \<not> fix_too_large (demo_env (demo_packet 1002 [9, 10, 11, 12]) 106 600000) demo_bound
   \<and> \<not> measured_latency (demo_env (demo_packet 1002 [9, 10, 11, 12]) 106 600000) demo_bound
       < intended_latency demo_bound
   \<and> rate (sample_spec (sink_input
        (fst (update_rate (demo_env (demo_packet 1002 [9, 10, 11, 12]) 106 600000) demo_bound))))
       = 44982"
  using rate_update_direction [of "demo_env (demo_packet 1002 [9, 10, 11, 12]) 106 400000" demo_bound]
    rate_update_direction [of "demo_env (demo_packet 1002 [9, 10, 11, 12]) 106 600000" demo_bound]
  by (simp add: demo_bound_eq demo_defs measured_latency_def deviation_def fix_samples_def
      fix_too_large_def pa_memblockq_get_read_index_def Let_def)

text \<open>
  Claim C2 as stated has the two directions exchanged. In the sample session at 44100 Hz
  with a measured latency of 400 ms against the intended 500 ms, the correction is 882 Hz,
  within bounds, and the rate goes down to 43218 Hz, both in \<open>update_rate\<close> and in the
  callback that runs it.
\<close>

theorem rate_raised_below_intended_counterexample:
  "\<not> fix_too_large (demo_env (demo_packet 1002 [9, 10, 11, 12]) 106 400000) demo_bound
   \<and> measured_latency (demo_env (demo_packet 1002 [9, 10, 11, 12]) 106 400000) demo_bound
       < intended_latency demo_bound
   \<and> fix_samples (demo_env (demo_packet 1002 [9, 10, 11, 12]) 106 400000) demo_bound = 882
   \<and> rate (sample_spec (sink_input demo_bound)) = 44100
   \<and> rate (sample_spec (sink_input
        (fst (update_rate (demo_env (demo_packet 1002 [9, 10, 11, 12]) 106 400000) demo_bound))))
       = 43218
   \<and> rate (sample_spec (sink_input
        (session_after (demo_env (demo_packet 1002 [9, 10, 11, 12]) 106 400000) demo_bound)))
       = 43218
   \<and> rate (sample_spec (sink_input
        (session_after (demo_env (demo_packet 1002 [9, 10, 11, 12]) 106 400000) demo_bound)))
       \<noteq> rate (sample_spec (sink_input demo_bound))
           + fix_samples (demo_env (demo_packet 1002 [9, 10, 11, 12]) 106 400000) demo_bound"
  by (simp add: session_after_def demo_bound_eq cb_defs demo_defs Let_def)

text \<open>
  Claim C1 at a failing input. In the sample session at 44100 Hz a measured latency of
  2 s against the intended 500 ms gives a correction of 13230 Hz, more than a fifth of the
  rate. The callback logs that the fix is too large and that it is not applied, but line
  304 applies it all the same: the rate becomes 57330 Hz and is given to the resampler.
\<close>

theorem rate_fix_too_large_is_applied:
  "fix_too_large (demo_env (demo_packet 1002 [9, 10, 11, 12]) 106 2000000) demo_bound
   \<and> fix_samples (demo_env (demo_packet 1002 [9, 10, 11, 12]) 106 2000000) demo_bound = 13230
   \<and> rate (sample_spec (sink_input demo_bound)) = 44100
   \<and> Log_fix_too_large 13230
        \<in> set (logged (demo_env (demo_packet 1002 [9, 10, 11, 12]) 106 2000000) demo_bound)
   \<and> rate (sample_spec (sink_input
        (session_after (demo_env (demo_packet 1002 [9, 10, 11, 12]) 106 2000000) demo_bound)))
       = 57330
   \<and> resampler_input_rate (sink_input
        (session_after (demo_env (demo_packet 1002 [9, 10, 11, 12]) 106 2000000) demo_bound))
       = 57330"
  by (simp add: session_after_def logged_def demo_bound_eq cb_defs demo_defs Let_def)

subsection \<open>Queue overrun\<close>

lemma enqueue_log:
  "snd (enqueue env chunk s) =
     (case pa_memblockq_push
             (pa_memblockq_seek (memblockq s)
                (timestamp_delta (offset s) (rtp_timestamp (rtp_context s))
                   * int (frame_size (rtp_context s)))) chunk of
        None \<Rightarrow> [Log_queue_overrun]
      | Some q \<Rightarrow> [])"
  by (simp add: enqueue_def Let_def case_prod_beta split: option.splits)

lemma process_chunk_log:
  "set (snd (enqueue env chunk s)) \<subseteq> set (snd (process_chunk env chunk s))"
  by (auto simp add: process_chunk_def Let_def case_prod_beta)

lemma work_accepted_memblockq:
  assumes "readable env" and "in_recv env = Some pkt"
    and "pkt_payload pkt = payload (sdp_info s)"
    and "first_packet s \<longrightarrow> pkt_ssrc pkt = ssrc s"
  shows "memblockq (session_after env s) =
     (case pa_memblockq_push
             (pa_memblockq_seek (memblockq s)
                ((if first_packet s then timestamp_delta (offset s) (pkt_timestamp pkt) else 0)
                   * int (frame_size (rtp_context s)))) (pkt_chunk pkt) of
        None \<Rightarrow>
          pa_memblockq_seek
            (pa_memblockq_seek (memblockq s)
               ((if first_packet s then timestamp_delta (offset s) (pkt_timestamp pkt) else 0)
                  * int (frame_size (rtp_context s))))
            (int (length (pkt_chunk pkt)))
      | Some q \<Rightarrow> q)"
    and "pa_memblockq_push
             (pa_memblockq_seek (memblockq s)
                ((if first_packet s then timestamp_delta (offset s) (pkt_timestamp pkt) else 0)
                   * int (frame_size (rtp_context s)))) (pkt_chunk pkt) = None
         \<Longrightarrow> Log_queue_overrun \<in> set (logged env s)"
proof -
  obtain s1 where s1: "pa_rtp_recv env s = Some (s1, pkt_chunk pkt)"
    "rtp_payload (rtp_context s1) = pkt_payload pkt" "rtp_ssrc (rtp_context s1) = pkt_ssrc pkt"
    "rtp_timestamp (rtp_context s1) = pkt_timestamp pkt"
    using pa_rtp_recv_Some [OF assms(2)] by blast
  note f1 = pa_rtp_recv_frame [OF s1(1)]
  have "first_packet s1 \<Longrightarrow> rtp_ssrc (rtp_context s1) = ssrc s1"
    using assms(4) f1 s1 by simp
  then obtain s2 lg2 where s2: "bind_stream env s1 = Some (s2, lg2)"
    using bind_stream_Some by blast
  note f2 = bind_stream_frame [OF s2]
  have pl: "payload (sdp_info s1) = rtp_payload (rtp_context s1)"
    using assms(3) f1 s1 by simp
  note w = work_accepted [OF assms(1) s1(1) pl s2]
  have d: "timestamp_delta (offset s2) (rtp_timestamp (rtp_context s2)) =
      (if first_packet s then timestamp_delta (offset s) (pkt_timestamp pkt) else 0)"
    using f2 f1 s1 by (simp add: timestamp_delta_same)
  have q: "memblockq s2 = memblockq s" "frame_size (rtp_context s2) = frame_size (rtp_context s)"
    using f2 f1 by simp_all
  show "memblockq (session_after env s) =
     (case pa_memblockq_push
             (pa_memblockq_seek (memblockq s)
                ((if first_packet s then timestamp_delta (offset s) (pkt_timestamp pkt) else 0)
                   * int (frame_size (rtp_context s)))) (pkt_chunk pkt) of
        None \<Rightarrow>
          pa_memblockq_seek
            (pa_memblockq_seek (memblockq s)
               ((if first_packet s then timestamp_delta (offset s) (pkt_timestamp pkt) else 0)
                  * int (frame_size (rtp_context s))))
            (int (length (pkt_chunk pkt)))
      | Some q \<Rightarrow> q)"
    by (simp only: session_after_def w fst_conv snd_conv process_chunk_frame enqueue_memblockq
        d q Let_def)
  assume "pa_memblockq_push
             (pa_memblockq_seek (memblockq s)
                ((if first_packet s then timestamp_delta (offset s) (pkt_timestamp pkt) else 0)
                   * int (frame_size (rtp_context s)))) (pkt_chunk pkt) = None"
  then have "snd (enqueue env (pkt_chunk pkt) s2) = [Log_queue_overrun]"
    by (simp only: enqueue_log d q option.case)
  then have "Log_queue_overrun \<in> set (snd (process_chunk env (pkt_chunk pkt) s2))"
    using process_chunk_log [of env "pkt_chunk pkt" s2] by auto
  then show "Log_queue_overrun \<in> set (logged env s)"
    by (simp add: logged_def w)
qed

text \<open>
  Claim C6, as amended. When the push of an accepted packet's payload fails (a queue
  overrun): the payload is dropped (the bytes the queue holds are as before); the write
  cursor, from where the timestamp seek has put it, is advanced by exactly the length of
  the payload (line 249); and "Queue overrun" is logged. The occupancy, the distance from
  the read cursor to the write cursor, is not kept within the maximum length by this: with
  the write cursor at or ahead of the read cursor, the seek adds the length of the payload
  to the occupancy, which is above the maximum after the overrun.
\<close>

theorem queue_overrun:
  assumes "readable env" and "in_recv env = Some pkt"
    and "pkt_payload pkt = payload (sdp_info s)"
    and "first_packet s \<longrightarrow> pkt_ssrc pkt = ssrc s"
    and "pa_memblockq_push
           (pa_memblockq_seek (memblockq s)
              ((if first_packet s then timestamp_delta (offset s) (pkt_timestamp pkt) else 0)
                 * int (frame_size (rtp_context s))))
           (pkt_chunk pkt) = None"
  shows "stored (memblockq (session_after env s)) = stored (memblockq s)
    \<and> write_index (memblockq (session_after env s)) =
        write_index (memblockq s)
          + (if first_packet s then timestamp_delta (offset s) (pkt_timestamp pkt) else 0)
              * int (frame_size (rtp_context s))
          + int (length (pkt_chunk pkt))
    \<and> Log_queue_overrun \<in> set (logged env s)
    \<and> (read_index (memblockq s)
          \<le> write_index (memblockq s)
              + (if first_packet s then timestamp_delta (offset s) (pkt_timestamp pkt) else 0)
                  * int (frame_size (rtp_context s)) \<longrightarrow>
         pa_memblockq_get_length (memblockq (session_after env s))
           = pa_memblockq_get_length
               (pa_memblockq_seek (memblockq s)
                  ((if first_packet s then timestamp_delta (offset s) (pkt_timestamp pkt) else 0)
                     * int (frame_size (rtp_context s))))
             + length (pkt_chunk pkt)
         \<and> maxlength (memblockq (session_after env s))
             < pa_memblockq_get_length (memblockq (session_after env s)))"
proof -
  define D where "D = (if first_packet s then timestamp_delta (offset s) (pkt_timestamp pkt) else 0)
                 * int (frame_size (rtp_context s))"
  have none: "pa_memblockq_push (pa_memblockq_seek (memblockq s) D) (pkt_chunk pkt) = None"
    using assms(5) by (simp add: D_def)
  have m: "memblockq (session_after env s) =
      pa_memblockq_seek (pa_memblockq_seek (memblockq s) D) (int (length (pkt_chunk pkt)))"
    using work_accepted_memblockq(1) [OF assms(1-4)] none by (simp add: D_def)
  have lg: "Log_queue_overrun \<in> set (logged env s)"
    by (rule work_accepted_memblockq(2) [OF assms(1-4) assms(5)])
  have st: "stored (memblockq (session_after env s)) = stored (memblockq s)"
    by (simp add: m pa_memblockq_seek_def)
  have wr: "write_index (memblockq (session_after env s)) =
        write_index (memblockq s) + D + int (length (pkt_chunk pkt))"
    by (simp add: m pa_memblockq_seek_def)
  have over: "length (pkt_chunk pkt)
      > maxlength (memblockq s) - nat (write_index (memblockq s) + D - read_index (memblockq s))"
    using none
    by (simp add: pa_memblockq_push_def pa_memblockq_seek_def pa_memblockq_get_length_def
        split: if_splits)
  have ex: "pa_memblockq_get_length (memblockq (session_after env s))
           = pa_memblockq_get_length (pa_memblockq_seek (memblockq s) D) + length (pkt_chunk pkt)
         \<and> maxlength (memblockq (session_after env s))
             < pa_memblockq_get_length (memblockq (session_after env s))"
    if "read_index (memblockq s) \<le> write_index (memblockq s) + D"
  proof -
    have "nat (write_index (memblockq s) + D + int (length (pkt_chunk pkt)) - read_index (memblockq s))
        = nat (write_index (memblockq s) + D - read_index (memblockq s)) + length (pkt_chunk pkt)"
      using that by (simp add: nat_add_distrib)
    then show ?thesis
      using over by (simp add: m pa_memblockq_seek_def pa_memblockq_get_length_def)
  qed
  show ?thesis
    using st wr lg ex unfolding D_def by blast
qed

theorem queue_overrun_witness:
  "readable (demo_env (demo_packet 1002 [9, 10, 11, 12]) 100 0)
   \<and> pkt_payload (demo_packet 1002 [9, 10, 11, 12]) = payload (sdp_info demo_full)
   \<and> pkt_ssrc (demo_packet 1002 [9, 10, 11, 12]) = ssrc demo_full
   \<and> pa_memblockq_push (pa_memblockq_seek (memblockq demo_full) 0) [9, 10, 11, 12] = None
   \<and> stored (memblockq (session_after (demo_env (demo_packet 1002 [9, 10, 11, 12]) 100 0) demo_full))
       = [(0, 5), (1, 6), (2, 7), (3, 8)]
   \<and> write_index (memblockq demo_full) = 4
   \<and> write_index (memblockq (session_after (demo_env (demo_packet 1002 [9, 10, 11, 12]) 100 0) demo_full))
       = 8
   \<and> Log_queue_overrun \<in> set (logged (demo_env (demo_packet 1002 [9, 10, 11, 12]) 100 0) demo_full)"
  using queue_overrun [of "demo_env (demo_packet 1002 [9, 10, 11, 12]) 100 0"
      "demo_packet 1002 [9, 10, 11, 12]" demo_full]
  by (simp add: readable_def demo_full_def demo_bound_eq demo_defs pa_memblockq_push_def
      pa_memblockq_seek_def pa_memblockq_get_length_def timestamp_delta_def delta_k_def delta_j_def)

text \<open>
  Claim C6 as stated fails in its last part. In the sample session with a buffer of at
  most 6 bytes and an occupancy of 4, the overrun of a payload of 4 bytes leaves an
  occupancy of 8. In the sample session with the module's own maximum length, a packet
  whose timestamp is 10485759 frames ahead of the expected one puts the write cursor at
  the maximum; its payload overruns, and the occupancy ends at 41943044, above the
  maximum of 41943040.
\<close>

theorem queue_overrun_exceeds_maxlength:
  "returned (demo_env (demo_packet 1002 [9, 10, 11, 12]) 100 0) demo_full = 1
   \<and> Log_queue_overrun \<in> set (logged (demo_env (demo_packet 1002 [9, 10, 11, 12]) 100 0) demo_full)
   \<and> pa_memblockq_get_length (memblockq demo_full) = 4
   \<and> maxlength (memblockq demo_full) = 6
   \<and> maxlength (memblockq (session_after (demo_env (demo_packet 1002 [9, 10, 11, 12]) 100 0) demo_full))
       = 6
   \<and> pa_memblockq_get_length
        (memblockq (session_after (demo_env (demo_packet 1002 [9, 10, 11, 12]) 100 0) demo_full))
       = 8
   \<and> \<not> pa_memblockq_get_length
        (memblockq (session_after (demo_env (demo_packet 1002 [9, 10, 11, 12]) 100 0) demo_full))
       \<le> maxlength
            (memblockq (session_after (demo_env (demo_packet 1002 [9, 10, 11, 12]) 100 0) demo_full))
   \<and> returned (demo_env (demo_packet 10486761 [9, 10, 11, 12]) 100 0) demo_bound = 1
   \<and> Log_queue_overrun
        \<in> set (logged (demo_env (demo_packet 10486761 [9, 10, 11, 12]) 100 0) demo_bound)
   \<and> pa_memblockq_get_length (memblockq demo_bound) = 4
   \<and> maxlength (memblockq (session_after (demo_env (demo_packet 10486761 [9, 10, 11, 12]) 100 0)
        demo_bound)) = 41943040
   \<and> pa_memblockq_get_length
        (memblockq (session_after (demo_env (demo_packet 10486761 [9, 10, 11, 12]) 100 0) demo_bound))
       = 41943044"
  by (simp add: returned_def logged_def session_after_def demo_full_def demo_bound_eq cb_defs
      demo_defs Let_def)

subsection \<open>Packets out of order\<close>

lemma map_of_put_byte: "map_of (put_byte i b ps) = (map_of ps)(i \<mapsto> b)"
  by (induction ps) (auto simp add: fun_eq_iff)

lemma map_of_put_bytes:
  "map_of (put_bytes i bs ps) j =
     (if i \<le> j \<and> j < i + int (length bs) then Some (bs ! nat (j - i)) else map_of ps j)"
proof (induction bs arbitrary: i ps)
  case Nil
  then show ?case by auto
next
  case (Cons b bs)
  show ?case
  proof (cases "j = i")
    case True
    have "map_of (put_bytes (i + 1) bs (put_byte i b ps)) j =
        (if i + 1 \<le> j \<and> j < i + 1 + int (length bs) then Some (bs ! nat (j - (i + 1)))
         else map_of (put_byte i b ps) j)"
      by (rule Cons.IH)
    then show ?thesis
      using True by (simp add: map_of_put_byte)
  next
    case False
    have "nat (j - i) = Suc (nat (j - (i + 1)))" if "i < j"
      using that by simp
    then show ?thesis
      using False by (auto simp add: Cons.IH map_of_put_byte)
  qed
qed

lemma work_static:
  "sdp_info (session_after env s) = sdp_info s"
  "frame_size (rtp_context (session_after env s)) = frame_size (rtp_context s)"
proof -
  have "sdp_info (session_after env s) = sdp_info s
    \<and> frame_size (rtp_context (session_after env s)) = frame_size (rtp_context s)"
  proof (cases "\<exists>s1 chunk s2 lg2. readable env \<and> pa_rtp_recv env s = Some (s1, chunk)
    \<and> payload (sdp_info s1) = rtp_payload (rtp_context s1) \<and> bind_stream env s1 = Some (s2, lg2)")
    case True
    then obtain s1 chunk s2 lg2 where h: "readable env" "pa_rtp_recv env s = Some (s1, chunk)"
      "payload (sdp_info s1) = rtp_payload (rtp_context s1)" "bind_stream env s1 = Some (s2, lg2)"
      by blast
    note f1 = pa_rtp_recv_frame [OF h(2)]
    note f2 = bind_stream_frame [OF h(4)]
    show ?thesis
      by (simp add: session_after_def work_accepted [OF h] process_chunk_frame f2 f1)
  next
    case False
    then show ?thesis
      by (auto simp add: session_after_def rtpoll_work_cb_def readable_def
          split: option.splits dest: pa_rtp_recv_frame(7,11))
  qed
  then show "sdp_info (session_after env s) = sdp_info s"
    "frame_size (rtp_context (session_after env s)) = frame_size (rtp_context s)"
    by simp_all
qed

lemma work_step:
  assumes "readable env" and "in_recv env = Some pkt"
    and "pkt_payload pkt = payload (sdp_info s)"
    and "first_packet s \<longrightarrow> pkt_ssrc pkt = ssrc s"
    and "nat (write_index (memblockq s)
              + (if first_packet s then timestamp_delta (offset s) (pkt_timestamp pkt) else 0)
                  * int (frame_size (rtp_context s))
              - read_index (memblockq s))
           + length (pkt_chunk pkt) \<le> maxlength (memblockq s)"
  shows "stored (memblockq (session_after env s)) =
       put_bytes
         (write_index (memblockq s)
            + (if first_packet s then timestamp_delta (offset s) (pkt_timestamp pkt) else 0)
                * int (frame_size (rtp_context s)))
         (pkt_chunk pkt) (stored (memblockq s))
    \<and> write_index (memblockq (session_after env s)) =
       write_index (memblockq s)
         + (if first_packet s then timestamp_delta (offset s) (pkt_timestamp pkt) else 0)
             * int (frame_size (rtp_context s))
         + int (length (pkt_chunk pkt))
    \<and> maxlength (memblockq (session_after env s)) = maxlength (memblockq s)
    \<and> read_index (memblockq (session_after env s)) = read_index (memblockq s)
    \<and> first_packet (session_after env s)
    \<and> ssrc (session_after env s) = pkt_ssrc pkt
    \<and> offset (session_after env s) =
         pkt_timestamp pkt + of_nat (length (pkt_chunk pkt) div frame_size (rtp_context s))
    \<and> sdp_info (session_after env s) = sdp_info s
    \<and> frame_size (rtp_context (session_after env s)) = frame_size (rtp_context s)"
proof -
  define D where "D = (if first_packet s then timestamp_delta (offset s) (pkt_timestamp pkt) else 0)
                 * int (frame_size (rtp_context s))"
  have fits: "\<not> length (pkt_chunk pkt)
      > maxlength (memblockq s) - nat (write_index (memblockq s) + D - read_index (memblockq s))"
    using assms(5) by (simp add: D_def)
  have m: "memblockq (session_after env s) =
     (memblockq s)
       \<lparr>write_index := write_index (memblockq s) + D,
        stored := put_bytes (write_index (memblockq s) + D) (pkt_chunk pkt) (stored (memblockq s)),
        write_index := write_index (memblockq s) + D + int (length (pkt_chunk pkt))\<rparr>"
    using fits work_accepted_memblockq(1) [OF assms(1-4)]
    by (simp add: D_def [symmetric] pa_memblockq_push_def pa_memblockq_seek_def
        pa_memblockq_get_length_def)
  show ?thesis
    using work_offset(2,3,4) [OF assms(1-4)] work_static [of env s]
    by (simp add: m D_def)
qed

lemma delta_late: "timestamp_delta 1002 1000 = - 2"
  by (simp add: timestamp_delta_def delta_k_def delta_j_def)

lemma delta_next: "timestamp_delta 1001 1002 = 1"
  by (simp add: timestamp_delta_def delta_k_def delta_j_def)

lemma demo_in_order_memblockq:
  "memblockq (run_work demo_in_order demo_session) =
     \<lparr>read_index = 0, write_index = 12, maxlength = 41943040, prebuf = 88200,
      stored = [(0, 1), (1, 2), (2, 3), (3, 4), (4, 5), (5, 6), (6, 7), (7, 8),
                (8, 9), (9, 10), (10, 11), (11, 12)]\<rparr>"
  by (simp add: demo_in_order_def session_after_def cb_defs demo_defs Let_def)

lemma demo_reordered_memblockq:
  "memblockq (run_work demo_reordered demo_session) =
     \<lparr>read_index = 0, write_index = 8, maxlength = 41943040, prebuf = 88200,
      stored = [(0, 5), (1, 6), (2, 7), (3, 8), (- 4, 1), (- 3, 2), (- 2, 3), (- 1, 4),
                (4, 9), (5, 10), (6, 11), (7, 12)]\<rparr>"
  by (simp add: demo_reordered_def session_after_def cb_defs demo_defs Let_def)

lemma delta_succ:
  assumes "e \<noteq> 2147484648"
  shows "timestamp_delta e 1001 = timestamp_delta e 1000 + 1"
proof -
  have "uint e \<noteq> 2147484648"
    using assms by (simp add: word_uint_eq_iff)
  moreover have "0 \<le> uint e" "uint e < 2 ^ 32"
    using uint_lt2p [of e] by simp_all
  ultimately show ?thesis
    by (simp add: timestamp_delta_def delta_k_def delta_j_def Let_def)
qed

lemma demo_expecting_eq:
  "demo_expecting = demo_session
     \<lparr>memblockq := \<lparr>read_index = 0, write_index = 4, maxlength = 41943040, prebuf = 88200,
                     stored = [(0, 0), (1, 0), (2, 0), (3, 0)]\<rparr>,
      first_packet := True, ssrc := 7, offset := 1000,
      rtp_context := \<lparr>fd = 5, rtp_payload = 10, rtp_ssrc = 7, rtp_timestamp = 999, frame_size = 4\<rparr>,
      smoother := \<lparr>time_offset = 100000000, samples = [(100000000, 0)]\<rparr>\<rparr>"
  by (simp add: demo_expecting_def session_after_def cb_defs demo_defs Let_def)

text \<open>
  Claim C8, as amended. A session that is bound to the stream (it has accepted a packet
  before), whose expected timestamp is not \<open>1000 + 2 ^ 31\<close>, and whose jitter buffer has
  room for the last of the three frames, takes three packets of one frame each with the
  timestamps 1000, 1001 and 1002, of the session's payload type and SSRC. Whether they
  arrive in the order 1000, 1001, 1002 or in the order 1001, 1000, 1002, the final content
  of the jitter buffer is the same (each payload at the same buffer offset), and so are
  the write cursor and the expected timestamp.
\<close>

theorem reorder_same_when_bound:
  assumes s: "first_packet s" "offset s \<noteq> 2147484648"
      "0 < frame_size (rtp_context s)"
      "nat (write_index (memblockq s)
              + (timestamp_delta (offset s) 1000 + 2) * int (frame_size (rtp_context s))
              - read_index (memblockq s))
         + frame_size (rtp_context s) \<le> maxlength (memblockq s)"
    and p0: "pkt_timestamp p0 = 1000" "pkt_payload p0 = payload (sdp_info s)"
      "length (pkt_chunk p0) = frame_size (rtp_context s)" "pkt_ssrc p0 = ssrc s"
    and p1: "pkt_timestamp p1 = 1001" "pkt_payload p1 = payload (sdp_info s)"
      "length (pkt_chunk p1) = frame_size (rtp_context s)" "pkt_ssrc p1 = ssrc s"
    and p2: "pkt_timestamp p2 = 1002" "pkt_payload p2 = payload (sdp_info s)"
      "length (pkt_chunk p2) = frame_size (rtp_context s)" "pkt_ssrc p2 = ssrc s"
    and a: "readable a0" "in_recv a0 = Some p0" "readable a1" "in_recv a1 = Some p1"
      "readable a2" "in_recv a2 = Some p2"
    and b: "readable b1" "in_recv b1 = Some p1" "readable b0" "in_recv b0 = Some p0"
      "readable b2" "in_recv b2 = Some p2"
  shows "content (memblockq (run_work [b1, b0, b2] s))
           = content (memblockq (run_work [a0, a1, a2] s))
    \<and> write_index (memblockq (run_work [b1, b0, b2] s))
        = write_index (memblockq (run_work [a0, a1, a2] s))
    \<and> offset (run_work [b1, b0, b2] s) = offset (run_work [a0, a1, a2] s)
    \<and> write_index (memblockq (run_work [a0, a1, a2] s))
        = write_index (memblockq s)
            + (timestamp_delta (offset s) 1000 + 3) * int (frame_size (rtp_context s))
    \<and> offset (run_work [a0, a1, a2] s) = 1003"
proof -
  define fs where "fs = frame_size (rtp_context s)"
  define P where "P = write_index (memblockq s) + timestamp_delta (offset s) 1000 * int fs"
  define r where "r = read_index (memblockq s)"
  define M where "M = maxlength (memblockq s)"
  have fs1: "fs div fs = 1" "0 < fs"
    using s(3) by (simp_all add: fs_def)
  have d1: "timestamp_delta (offset s) 1001 = timestamp_delta (offset s) 1000 + 1"
    by (rule delta_succ [OF s(2)])
  have F2: "nat (P + 2 * int fs - r) + fs \<le> M"
    using s(4) by (simp add: P_def fs_def r_def M_def algebra_simps)
  have F1: "nat (P + int fs - r) + fs \<le> M"
    using F2 by linarith
  have F0: "nat (P - r) + fs \<le> M"
    using F2 by linarith
  have P1: "write_index (memblockq s) + timestamp_delta (offset s) 1001 * int fs = P + int fs"
    by (simp add: P_def d1 algebra_simps)
  have len: "length (pkt_chunk p0) = fs" "length (pkt_chunk p1) = fs" "length (pkt_chunk p2) = fs"
    using p0 p1 p2 by (simp_all add: fs_def)
  define A1 where "A1 = session_after a0 s"
  define A2 where "A2 = session_after a1 A1"
  define A3 where "A3 = session_after a2 A2"
  define B1 where "B1 = session_after b1 s"
  define B2 where "B2 = session_after b0 B1"
  define B3 where "B3 = session_after b2 B2"
  have A1: "stored (memblockq A1) = put_bytes P (pkt_chunk p0) (stored (memblockq s))"
    "write_index (memblockq A1) = P + int fs" "maxlength (memblockq A1) = M"
    "read_index (memblockq A1) = r" "first_packet A1" "ssrc A1 = ssrc s"
    "offset A1 = 1001" "sdp_info A1 = sdp_info s" "frame_size (rtp_context A1) = fs"
    using work_step [of a0 p0 s] a(1,2) p0 s(1) F0 fs1 len
    by (simp_all add: A1_def fs_def [symmetric] P_def [symmetric] r_def [symmetric]
        M_def [symmetric])
  have A2: "stored (memblockq A2) =
        put_bytes (P + int fs) (pkt_chunk p1) (put_bytes P (pkt_chunk p0) (stored (memblockq s)))"
    "write_index (memblockq A2) = P + 2 * int fs" "maxlength (memblockq A2) = M"
    "read_index (memblockq A2) = r" "first_packet A2" "ssrc A2 = ssrc s"
    "offset A2 = 1002" "sdp_info A2 = sdp_info s" "frame_size (rtp_context A2) = fs"
    using work_step [of a1 p1 A1] a(3,4) p1 A1 F1 fs1 len
    by (simp_all add: A2_def timestamp_delta_same)
  have A3: "stored (memblockq A3) = put_bytes (P + 2 * int fs) (pkt_chunk p2)
        (put_bytes (P + int fs) (pkt_chunk p1) (put_bytes P (pkt_chunk p0) (stored (memblockq s))))"
    "write_index (memblockq A3) = P + 3 * int fs" "offset A3 = 1003"
    using work_step [of a2 p2 A2] a(5,6) p2 A2 F2 fs1 len
    by (simp_all add: A3_def timestamp_delta_same)
  have B1: "stored (memblockq B1) = put_bytes (P + int fs) (pkt_chunk p1) (stored (memblockq s))"
    "write_index (memblockq B1) = P + 2 * int fs" "maxlength (memblockq B1) = M"
    "read_index (memblockq B1) = r" "first_packet B1" "ssrc B1 = ssrc s"
    "offset B1 = 1002" "sdp_info B1 = sdp_info s" "frame_size (rtp_context B1) = fs"
    using work_step [of b1 p1 s] b(1,2) p1 s(1) F1 fs1 len
    by (simp_all add: B1_def fs_def [symmetric] P1 r_def [symmetric] M_def [symmetric])
  have B2: "stored (memblockq B2) = put_bytes P (pkt_chunk p0)
        (put_bytes (P + int fs) (pkt_chunk p1) (stored (memblockq s)))"
    "write_index (memblockq B2) = P + int fs" "maxlength (memblockq B2) = M"
    "read_index (memblockq B2) = r" "first_packet B2" "ssrc B2 = ssrc s"
    "offset B2 = 1001" "sdp_info B2 = sdp_info s" "frame_size (rtp_context B2) = fs"
    using work_step [of b0 p0 B1] b(3,4) p0 B1 F0 fs1 len
    by (simp_all add: B2_def delta_late)
  have B3: "stored (memblockq B3) = put_bytes (P + 2 * int fs) (pkt_chunk p2)
        (put_bytes P (pkt_chunk p0) (put_bytes (P + int fs) (pkt_chunk p1) (stored (memblockq s))))"
    "write_index (memblockq B3) = P + 3 * int fs" "offset B3 = 1003"
    using work_step [of b2 p2 B2] b(5,6) p2(1,2,4) B2 F2 fs1 len
    by (simp_all add: B3_def delta_next algebra_simps)
  have rA: "run_work [a0, a1, a2] s = A3"
    by (simp add: A3_def A2_def A1_def)
  have rB: "run_work [b1, b0, b2] s = B3"
    by (simp add: B3_def B2_def B1_def)
  have same: "content (memblockq B3) = content (memblockq A3)"
    unfolding content_def A3 B3 fun_eq_iff map_of_put_bytes len using fs1 by auto
  have end_A: "write_index (memblockq A3) = write_index (memblockq s)
            + (timestamp_delta (offset s) 1000 + 3) * int (frame_size (rtp_context s))"
    by (simp add: A3 P_def fs_def algebra_simps)
  show ?thesis
    unfolding rA rB using same A3(2,3) B3(2,3) end_A by simp
qed

theorem reorder_same_when_bound_witness:
  "first_packet demo_expecting
   \<and> offset demo_expecting \<noteq> 2147484648
   \<and> 0 < frame_size (rtp_context demo_expecting)
   \<and> nat (write_index (memblockq demo_expecting)
             + (timestamp_delta (offset demo_expecting) 1000 + 2)
                 * int (frame_size (rtp_context demo_expecting))
             - read_index (memblockq demo_expecting))
        + frame_size (rtp_context demo_expecting) \<le> maxlength (memblockq demo_expecting)
   \<and> pkt_ssrc (demo_packet 1000 [1, 2, 3, 4]) = ssrc demo_expecting
   \<and> readable (demo_env (demo_packet 1000 [1, 2, 3, 4]) 100 0)
   \<and> readable (demo_env (demo_packet 1001 [5, 6, 7, 8]) 100 0)
   \<and> readable (demo_env (demo_packet 1002 [9, 10, 11, 12]) 100 0)
   \<and> content (memblockq (run_work demo_reordered demo_expecting))
       = content (memblockq (run_work demo_in_order demo_expecting))
   \<and> write_index (memblockq (run_work demo_reordered demo_expecting)) = 16
   \<and> write_index (memblockq (run_work demo_in_order demo_expecting)) = 16
   \<and> offset (run_work demo_reordered demo_expecting) = 1003"
  using reorder_same_when_bound [of demo_expecting "demo_packet 1000 [1, 2, 3, 4]"
      "demo_packet 1001 [5, 6, 7, 8]" "demo_packet 1002 [9, 10, 11, 12]"
      "demo_env (demo_packet 1000 [1, 2, 3, 4]) 100 0"
      "demo_env (demo_packet 1001 [5, 6, 7, 8]) 100 0"
      "demo_env (demo_packet 1002 [9, 10, 11, 12]) 100 0"
      "demo_env (demo_packet 1001 [5, 6, 7, 8]) 100 0"
      "demo_env (demo_packet 1000 [1, 2, 3, 4]) 100 0"
      "demo_env (demo_packet 1002 [9, 10, 11, 12]) 100 0"]
  by (simp add: readable_def demo_in_order_def demo_reordered_def demo_expecting_eq demo_defs
      timestamp_delta_same)

text \<open>
  Claim C8 as stated fails on the sample session with the payloads \<open>[1, 2, 3, 4]\<close>,
  \<open>[5, 6, 7, 8]\<close> and \<open>[9, 10, 11, 12]\<close>: the two orders leave different bytes at
  position 0 and at position 8, and different write cursors.
\<close>

theorem reorder_changes_buffer:
  "content (memblockq (run_work demo_in_order demo_session)) 0 = Some 1
   \<and> content (memblockq (run_work demo_reordered demo_session)) 0 = Some 5
   \<and> content (memblockq (run_work demo_in_order demo_session))
        \<noteq> content (memblockq (run_work demo_reordered demo_session))
   \<and> content (memblockq (run_work demo_in_order demo_session)) 8 = Some 9
   \<and> content (memblockq (run_work demo_reordered demo_session)) 8 = None
   \<and> write_index (memblockq (run_work demo_in_order demo_session)) = 12
   \<and> write_index (memblockq (run_work demo_reordered demo_session)) = 8"
proof -
  have a: "content (memblockq (run_work demo_in_order demo_session)) 0 = Some 1"
    and b: "content (memblockq (run_work demo_reordered demo_session)) 0 = Some 5"
    by (simp_all add: content_def demo_in_order_memblockq demo_reordered_memblockq)
  have "content (memblockq (run_work demo_in_order demo_session))
        \<noteq> content (memblockq (run_work demo_reordered demo_session))"
  proof
    assume "content (memblockq (run_work demo_in_order demo_session))
        = content (memblockq (run_work demo_reordered demo_session))"
    then have "content (memblockq (run_work demo_in_order demo_session)) 0
        = content (memblockq (run_work demo_reordered demo_session)) 0"
      by simp
    then show False
      using a b by simp
  qed
  then show ?thesis
    using a b by (simp add: content_def demo_in_order_memblockq demo_reordered_memblockq)
qed

subsection \<open>The registry stays consistent\<close>

lemma registry_ok_mapD:
  assumes "registry_ok u" and "by_origin u k = Some a"
  shows "a \<in> set (sessions u)" and "\<exists>s. heap u a = Some s \<and> origin (sdp_info s) = k"
  using assms unfolding registry_ok_def by blast+

lemma registry_ok_listD:
  assumes "registry_ok u" and "a \<in> set (sessions u)"
  shows "a < allocated u"
    and "\<exists>s. heap u a = Some s \<and> by_origin u (origin (sdp_info s)) = Some a"
  using assms unfolding registry_ok_def by blast+

lemma session_free_ok:
  assumes ok: "registry_ok u" and a: "a \<in> set (sessions u)"
  shows "\<exists>u'. session_free a u = Some u' \<and> registry_ok u'
     \<and> sessions u' = filter (\<lambda>b. b \<noteq> a) (sessions u)
     \<and> heap u' = (heap u)(a := None)
     \<and> (\<forall>s. heap u a = Some s \<longrightarrow> by_origin u' = (by_origin u)(origin (sdp_info s) := None))
     \<and> allocated u' = allocated u
     \<and> check_death_event u' = check_death_event u"
proof -
  from registry_ok_listD(2) [OF ok a]
  obtain s where s: "heap u a = Some s" "by_origin u (origin (sdp_info s)) = Some a"
    by blast
  have d: "distinct (sessions u)" and n: "n_sessions u = int (length (sessions u))"
    using ok by (simp_all add: registry_ok_def)
  have pos: "1 \<le> n_sessions u"
    using a n by (cases "sessions u") auto
  have rm: "remove1 a (sessions u) = filter (\<lambda>b. b \<noteq> a) (sessions u)"
    using d by (simp add: distinct_remove1_removeAll removeAll_filter_not_eq) metis
  define u' where "u' = u\<lparr>sessions := remove1 a (sessions u),
                       n_sessions := n_sessions u - 1,
                       by_origin := pa_hashmap_remove (by_origin u) (origin (sdp_info s)),
                       heap := (heap u)(a := None)\<rparr>"
  have f: "session_free a u = Some u'"
    using s pos by (simp add: session_free_def u'_def)
  have len: "length (remove1 a (sessions u)) = length (sessions u) - 1"
    using a by (simp add: length_remove1)
  have key: "origin (sdp_info t) \<noteq> origin (sdp_info s)"
    if "b \<in> set (sessions u)" "b \<noteq> a" "heap u b = Some t" for b t
  proof
    assume e: "origin (sdp_info t) = origin (sdp_info s)"
    from registry_ok_listD(2) [OF ok that(1)]
    obtain t' where "heap u b = Some t'" "by_origin u (origin (sdp_info t')) = Some b"
      by blast
    with that(3) e s(2) have "a = b" by simp
    with that(2) show False by simp
  qed
  have ok': "registry_ok u'"
    unfolding registry_ok_def
  proof (intro conjI ballI allI impI)
    show "distinct (sessions u')" using d by (simp add: u'_def)
    show "n_sessions u' = int (length (sessions u'))"
      using n len pos a by (simp add: u'_def)
  next
    fix b assume b: "b \<in> set (sessions u')"
    then have b1: "b \<in> set (sessions u)" "b \<noteq> a"
      using d by (simp_all add: u'_def)
    from registry_ok_listD [OF ok b1(1)]
    obtain t where t: "b < allocated u" "heap u b = Some t"
        "by_origin u (origin (sdp_info t)) = Some b"
      by blast
    show "b < allocated u'" using t(1) by (simp add: u'_def)
    show "\<exists>s. heap u' b = Some s \<and> by_origin u' (origin (sdp_info s)) = Some b"
      using t b1 key [OF b1 t(2)] by (simp add: u'_def pa_hashmap_remove_def)
  next
    fix k b assume kb: "by_origin u' k = Some b"
    then have k: "k \<noteq> origin (sdp_info s)" "by_origin u k = Some b"
      by (auto simp add: u'_def pa_hashmap_remove_def split: if_splits)
    from registry_ok_mapD [OF ok k(2)]
    obtain t where t: "b \<in> set (sessions u)" "heap u b = Some t" "origin (sdp_info t) = k"
      by blast
    have ba: "b \<noteq> a"
      using t k(1) s(1) by auto
    show "b \<in> set (sessions u')" using t(1) ba d by (simp add: u'_def)
    show "\<exists>s. heap u' b = Some s \<and> origin (sdp_info s) = k"
      using t ba by (simp add: u'_def)
  qed
  show ?thesis
    using f ok' rm s by (simp add: u'_def pa_hashmap_remove_def)
qed

lemma session_new_limit:
  assumes "n_sessions u \<ge> MAX_SESSIONS"
  shows "session_new env info u = (Inl Session_limit_reached, u)"
  using assms by (simp add: session_new_def)

lemma session_new_cases:
  "snd (session_new env info u) = u
   \<or> (n_sessions u < MAX_SESSIONS
       \<and> (\<exists>s. origin (sdp_info s) = origin info
            \<and> snd (session_new env info u) =
                u\<lparr>heap := (heap u)(allocated u \<mapsto> s),
                  allocated := Suc (allocated u),
                  by_origin := (by_origin u)(origin info \<mapsto> allocated u),
                  n_sessions := n_sessions u + 1,
                  sessions := allocated u # sessions u\<rparr>))"
proof (cases "n_sessions u \<ge> MAX_SESSIONS \<or> \<not> ne_sink env \<or> ne_fd env < 0
    \<or> ne_sink_input env = None")
  case True
  then have "snd (session_new env info u) = u"
    by (auto simp add: session_new_def)
  then show ?thesis by simp
next
  case False
  then obtain si where si: "ne_sink_input env = Some si" by auto
  define s where "s = the (heap (snd (session_new env info u)) (allocated u))"
  have "origin (sdp_info s) = origin info
      \<and> snd (session_new env info u) =
                u\<lparr>heap := (heap u)(allocated u \<mapsto> s),
                  allocated := Suc (allocated u),
                  by_origin := (by_origin u)(origin info \<mapsto> allocated u),
                  n_sessions := n_sessions u + 1,
                  sessions := allocated u # sessions u\<rparr>"
    unfolding s_def using False si
    by (simp add: session_new_def Let_def pa_hashmap_put_def)
  then show ?thesis using False by auto
qed

lemma heap_update_ok:
  assumes ok: "registry_ok u" and s: "heap u a = Some s"
    and o: "origin (sdp_info s') = origin (sdp_info s)"
  shows "registry_ok (u\<lparr>heap := (heap u)(a \<mapsto> s')\<rparr>)"
  unfolding registry_ok_def
proof (intro conjI ballI allI impI)
  show "distinct (sessions (u\<lparr>heap := (heap u)(a \<mapsto> s')\<rparr>))"
    using ok by (simp add: registry_ok_def)
  show "n_sessions (u\<lparr>heap := (heap u)(a \<mapsto> s')\<rparr>)
      = int (length (sessions (u\<lparr>heap := (heap u)(a \<mapsto> s')\<rparr>)))"
    using ok by (simp add: registry_ok_def)
next
  fix b assume "b \<in> set (sessions (u\<lparr>heap := (heap u)(a \<mapsto> s')\<rparr>))"
  then have b: "b \<in> set (sessions u)" by simp
  show "b < allocated (u\<lparr>heap := (heap u)(a \<mapsto> s')\<rparr>)"
    using registry_ok_listD(1) [OF ok b] by simp
  from registry_ok_listD(2) [OF ok b]
  obtain t where t: "heap u b = Some t" "by_origin u (origin (sdp_info t)) = Some b"
    by blast
  show "\<exists>t. heap (u\<lparr>heap := (heap u)(a \<mapsto> s')\<rparr>) b = Some t
      \<and> by_origin (u\<lparr>heap := (heap u)(a \<mapsto> s')\<rparr>) (origin (sdp_info t)) = Some b"
    using t s o by (cases "b = a") simp_all
next
  fix k b assume "by_origin (u\<lparr>heap := (heap u)(a \<mapsto> s')\<rparr>) k = Some b"
  then have kb: "by_origin u k = Some b" by simp
  show "b \<in> set (sessions (u\<lparr>heap := (heap u)(a \<mapsto> s')\<rparr>))"
    using registry_ok_mapD(1) [OF ok kb] by simp
  from registry_ok_mapD(2) [OF ok kb]
  obtain t where t: "heap u b = Some t" "origin (sdp_info t) = k"
    by blast
  show "\<exists>t. heap (u\<lparr>heap := (heap u)(a \<mapsto> s')\<rparr>) b = Some t \<and> origin (sdp_info t) = k"
    using t s o by (cases "b = a") simp_all
qed

lemma session_new_ok:
  assumes ok: "registry_ok u" and le: "n_sessions u \<le> MAX_SESSIONS"
    and new: "by_origin u (origin info) = None"
  shows "registry_ok (snd (session_new env info u))
     \<and> n_sessions (snd (session_new env info u)) \<le> MAX_SESSIONS"
proof -
  consider "snd (session_new env info u) = u"
    | s where "n_sessions u < MAX_SESSIONS" "origin (sdp_info s) = origin info"
        "snd (session_new env info u) =
                u\<lparr>heap := (heap u)(allocated u \<mapsto> s),
                  allocated := Suc (allocated u),
                  by_origin := (by_origin u)(origin info \<mapsto> allocated u),
                  n_sessions := n_sessions u + 1,
                  sessions := allocated u # sessions u\<rparr>"
    using session_new_cases [of env info u] by blast
  then show ?thesis
  proof cases
    case 1
    then show ?thesis using ok le by simp
  next
    case 2
    define u' where "u' = u\<lparr>heap := (heap u)(allocated u \<mapsto> s),
                  allocated := Suc (allocated u),
                  by_origin := (by_origin u)(origin info \<mapsto> allocated u),
                  n_sessions := n_sessions u + 1,
                  sessions := allocated u # sessions u\<rparr>"
    have fresh: "allocated u \<notin> set (sessions u)"
      using registry_ok_listD(1) [OF ok, of "allocated u"] by auto
    have ok': "registry_ok u'"
      unfolding registry_ok_def
    proof (intro conjI ballI allI impI)
      show "distinct (sessions u')"
        using ok fresh by (simp add: u'_def registry_ok_def)
      show "n_sessions u' = int (length (sessions u'))"
        using ok by (simp add: u'_def registry_ok_def)
    next
      fix b assume b: "b \<in> set (sessions u')"
      show "b < allocated u'"
        using b registry_ok_listD(1) [OF ok, of b] by (auto simp add: u'_def less_Suc_eq)
      show "\<exists>t. heap u' b = Some t \<and> by_origin u' (origin (sdp_info t)) = Some b"
      proof (cases "b = allocated u")
        case True
        then show ?thesis using 2(2) by (simp add: u'_def)
      next
        case False
        then have "b \<in> set (sessions u)" using b by (simp add: u'_def)
        from registry_ok_listD(2) [OF ok this]
        obtain t where t: "heap u b = Some t" "by_origin u (origin (sdp_info t)) = Some b"
          by blast
        then have "origin (sdp_info t) \<noteq> origin info" using new by auto
        then show ?thesis using t False by (simp add: u'_def)
      qed
    next
      fix k b assume kb: "by_origin u' k = Some b"
      show "b \<in> set (sessions u')"
        using kb registry_ok_mapD(1) [OF ok, of k b] by (auto simp add: u'_def split: if_splits)
      show "\<exists>t. heap u' b = Some t \<and> origin (sdp_info t) = k"
      proof (cases "k = origin info")
        case True
        then show ?thesis using kb 2(2) by (simp add: u'_def)
      next
        case False
        then have "by_origin u k = Some b" using kb by (simp add: u'_def)
        from registry_ok_mapD [OF ok this]
        obtain t where t: "b \<in> set (sessions u)" "heap u b = Some t" "origin (sdp_info t) = k"
          by blast
        then have "b \<noteq> allocated u" using fresh by auto
        then show ?thesis using t by (simp add: u'_def)
      qed
    qed
    have "n_sessions u' \<le> MAX_SESSIONS"
      using 2(1) by (simp add: u'_def)
    then show ?thesis
      using ok' 2(3) by (simp add: u'_def)
  qed
qed

lemma sap_event_ok:
  assumes ok: "registry_ok u" and le: "n_sessions u \<le> MAX_SESSIONS"
  shows "\<exists>u'. sap_event_cb ev u = Some u' \<and> registry_ok u' \<and> n_sessions u' \<le> MAX_SESSIONS"
proof (cases "sap_recv ev")
  case None
  then show ?thesis using ok le by (simp add: sap_event_cb_def)
next
  case (Some goodbye)
  note g = this
  show ?thesis
  proof (cases "sdp_parse ev")
    case None
    then show ?thesis using ok le g by (simp add: sap_event_cb_def)
  next
    case (Some info)
    note i = this
    show ?thesis
    proof (cases "by_origin u (origin info)")
      case None
      then show ?thesis
        using g i ok le session_new_ok [OF ok le None, of "sap_new ev"]
        by (simp add: sap_event_cb_def)
    next
      case (Some a)
      from registry_ok_mapD [OF ok Some]
      obtain s where s: "a \<in> set (sessions u)" "heap u a = Some s"
          "origin (sdp_info s) = origin info"
        by blast
      show ?thesis
      proof (cases goodbye)
        case True
        obtain u' where u': "session_free a u = Some u'" "registry_ok u'"
            "sessions u' = filter (\<lambda>b. b \<noteq> a) (sessions u)"
          using session_free_ok [OF ok s(1)] by blast
        have "length (sessions u') \<le> length (sessions u)"
          by (simp add: u'(3))
        then have "n_sessions u' \<le> MAX_SESSIONS"
          using ok u'(2) le by (simp add: registry_ok_def)
        then show ?thesis
          using g i Some True u' by (simp add: sap_event_cb_def)
      next
        case False
        define u' where "u' = u\<lparr>heap := (heap u)
                   (a \<mapsto> s\<lparr>timestamp := word_of_int (tv_sec (sap_now ev))\<rparr>)\<rparr>"
        have "registry_ok u'"
          unfolding u'_def by (rule heap_update_ok [OF ok s(2)]) simp
        then show ?thesis
          using g i Some False s le by (simp add: sap_event_cb_def u'_def)
      qed
    qed
  qed
qed

lemma reap_ok:
  assumes "registry_ok u" and "distinct as" and "set as \<subseteq> set (sessions u)"
  shows "\<exists>u'. reap now as u = Some u' \<and> registry_ok u'
     \<and> sessions u' = filter (\<lambda>b. \<not> (b \<in> set as \<and> expired now u b)) (sessions u)
     \<and> heap u' = (\<lambda>b. if b \<in> set as \<and> expired now u b then None else heap u b)
     \<and> allocated u' = allocated u
     \<and> check_death_event u' = check_death_event u"
  using assms
proof (induction as arbitrary: u)
  case Nil
  then show ?case by simp
next
  case (Cons a as)
  have a: "a \<in> set (sessions u)" "a \<notin> set as" "distinct as" "set as \<subseteq> set (sessions u)"
    using Cons.prems by simp_all
  from registry_ok_listD(2) [OF Cons.prems(1) a(1)]
  obtain s where s: "heap u a = Some s" by blast
  show ?case
  proof (cases "expired now u a")
    case True
    obtain u1 where u1: "session_free a u = Some u1" "registry_ok u1"
        "sessions u1 = filter (\<lambda>b. b \<noteq> a) (sessions u)" "heap u1 = (heap u)(a := None)"
        "allocated u1 = allocated u" "check_death_event u1 = check_death_event u"
      using session_free_ok [OF Cons.prems(1) a(1)] by blast
    have sub: "set as \<subseteq> set (sessions u1)"
      using a by (auto simp add: u1(3))
    obtain u' where u': "reap now as u1 = Some u'" "registry_ok u'"
        "sessions u' = filter (\<lambda>b. \<not> (b \<in> set as \<and> expired now u1 b)) (sessions u1)"
        "heap u' = (\<lambda>b. if b \<in> set as \<and> expired now u1 b then None else heap u1 b)"
        "allocated u' = allocated u1" "check_death_event u' = check_death_event u1"
      using Cons.IH [OF u1(2) a(3) sub] by blast
    have ex: "expired now u1 b = expired now u b" if "b \<in> set as" for b
    proof -
      have "b \<noteq> a" using that a(2) by auto
      then show ?thesis by (simp add: expired_def u1(4))
    qed
    have r: "reap now (a # as) u = Some u'"
      using True s u1(1) u'(1) by (simp add: expired_def)
    have l: "sessions u' = filter (\<lambda>b. \<not> (b \<in> set (a # as) \<and> expired now u b)) (sessions u)"
      unfolding u'(3) u1(3) filter_filter
      by (rule filter_cong) (use True ex in auto)
    have h: "heap u' = (\<lambda>b. if b \<in> set (a # as) \<and> expired now u b then None else heap u b)"
      unfolding u'(4) using True ex by (auto simp add: fun_eq_iff u1(4))
    show ?thesis
      using r u'(2) l h u'(5,6) u1(5,6) by simp
  next
    case False
    obtain u' where u': "reap now as u = Some u'" "registry_ok u'"
        "sessions u' = filter (\<lambda>b. \<not> (b \<in> set as \<and> expired now u b)) (sessions u)"
        "heap u' = (\<lambda>b. if b \<in> set as \<and> expired now u b then None else heap u b)"
        "allocated u' = allocated u" "check_death_event u' = check_death_event u"
      using Cons.IH [OF Cons.prems(1) a(3,4)] by blast
    have r: "reap now (a # as) u = Some u'"
      using False s u'(1) by (simp add: expired_def)
    have l: "sessions u' = filter (\<lambda>b. \<not> (b \<in> set (a # as) \<and> expired now u b)) (sessions u)"
      unfolding u'(3) by (rule filter_cong) (use False in auto)
    have h: "heap u' = (\<lambda>b. if b \<in> set (a # as) \<and> expired now u b then None else heap u b)"
      unfolding u'(4) using False by (auto simp add: fun_eq_iff)
    show ?thesis
      using r u'(2) l h u'(5,6) by simp
  qed
qed

lemma check_death_ok:
  assumes ok: "registry_ok u"
  shows "\<exists>u'. check_death_event_cb now tv u = Some u' \<and> registry_ok u'
     \<and> sessions u' = filter (\<lambda>b. \<not> expired now u b) (sessions u)
     \<and> heap u' = (\<lambda>b. if b \<in> set (sessions u) \<and> expired now u b then None else heap u b)
     \<and> allocated u' = allocated u
     \<and> check_death_event u' = pa_timeval_add tv (word_of_int DEATH_TIMEOUT * PA_USEC_PER_SEC)"
proof -
  have d: "distinct (sessions u)" using ok by (simp add: registry_ok_def)
  obtain u1 where u1: "reap now (sessions u) u = Some u1" "registry_ok u1"
      "sessions u1 = filter (\<lambda>b. \<not> (b \<in> set (sessions u) \<and> expired now u b)) (sessions u)"
      "heap u1 = (\<lambda>b. if b \<in> set (sessions u) \<and> expired now u b then None else heap u b)"
      "allocated u1 = allocated u"
    using reap_ok [OF ok d subset_refl] by blast
  have l: "sessions u1 = filter (\<lambda>b. \<not> expired now u b) (sessions u)"
    unfolding u1(3) by (rule filter_cong) auto
  have ok': "registry_ok (u1\<lparr>check_death_event :=
                     pa_timeval_add tv (word_of_int DEATH_TIMEOUT * PA_USEC_PER_SEC)\<rparr>)"
    using u1(2) by (simp add: registry_ok_def)
  show ?thesis
    using u1 l ok' by (simp add: check_death_event_cb_def)
qed

lemma handle_ok:
  assumes ok: "registry_ok u" and le: "n_sessions u \<le> MAX_SESSIONS"
  shows "\<exists>u'. handle e u = Some u' \<and> registry_ok u' \<and> n_sessions u' \<le> MAX_SESSIONS"
proof (cases e)
  case (Sap ev)
  then show ?thesis using sap_event_ok [OF ok le] by simp
next
  case (Death_check now tv)
  obtain u' where u': "check_death_event_cb now tv u = Some u'" "registry_ok u'"
      "sessions u' = filter (\<lambda>b. \<not> expired now u b) (sessions u)"
    using check_death_ok [OF ok] by blast
  have "length (sessions u') \<le> length (sessions u)" by (simp add: u'(3))
  then have "n_sessions u' \<le> MAX_SESSIONS"
    using ok u'(2) le by (simp add: registry_ok_def)
  then show ?thesis using Death_check u' by simp
next
  case (Kill a)
  show ?thesis
  proof (cases "a \<in> set (sessions u)")
    case True
    obtain u' where u': "session_free a u = Some u'" "registry_ok u'"
        "sessions u' = filter (\<lambda>b. b \<noteq> a) (sessions u)"
      using session_free_ok [OF ok True] by blast
    have "length (sessions u') \<le> length (sessions u)" by (simp add: u'(3))
    then have "n_sessions u' \<le> MAX_SESSIONS"
      using ok u'(2) le by (simp add: registry_ok_def)
    then show ?thesis using Kill True u' by simp
  next
    case False
    then show ?thesis using Kill ok le by simp
  qed
next
  case (Work a env)
  show ?thesis
  proof (cases "heap u a")
    case None
    then show ?thesis using Work ok le by simp
  next
    case (Some s)
    have "registry_ok (u\<lparr>heap := (heap u)(a \<mapsto> session_after env s)\<rparr>)"
      by (rule heap_update_ok [OF ok Some]) (simp add: work_static)
    then show ?thesis using Work Some le by simp
  qed
qed

lemma run_ok:
  assumes "registry_ok u" and "n_sessions u \<le> MAX_SESSIONS"
  shows "\<exists>u'. run es u = Some u' \<and> registry_ok u' \<and> n_sessions u' \<le> MAX_SESSIONS"
  using assms
proof (induction es arbitrary: u)
  case Nil
  then show ?case by simp
next
  case (Cons e es)
  obtain u1 where u1: "handle e u = Some u1" "registry_ok u1" "n_sessions u1 \<le> MAX_SESSIONS"
    using handle_ok [OF Cons.prems] by blast
  show ?case
    using Cons.IH [OF u1(2,3)] u1(1) by simp
qed

lemma init_ok: "registry_ok (pa__init name tv)" "n_sessions (pa__init name tv) \<le> MAX_SESSIONS"
  by (simp_all add: registry_ok_def pa__init_def MAX_SESSIONS_def)

subsection \<open>The sample registries\<close>

lemmas registry_defs = run.simps handle.simps sap_event_cb_def session_new_def session_free_def
  check_death_event_cb_def reap.simps pa__init_def pa_hashmap_put_def pa_hashmap_remove_def
  pa_timeval_add_def pa_timeval_load_def demo_new_env_def demo_sdp_def demo_sap_def
  MAX_SESSIONS_def DEATH_TIMEOUT_def

lemma run_init_ok: "registry_ok (the (run es (pa__init name tv)))"
  using run_ok [OF init_ok, of es name tv] by auto


lemma demo_full_registry_ok: "registry_ok demo_full_registry"
  unfolding demo_full_registry_def by (rule run_init_ok)


lemma demo_full_count:
  "n_sessions demo_full_registry = 16"
  "by_origin demo_full_registry ''q'' = None"
  by (simp_all add: demo_full_registry_def demo_sixteen_def registry_defs demo_defs Let_def)

lemma registry_card:
  assumes ok: "registry_ok u"
  shows "card (dom (by_origin u)) \<le> length (sessions u)"
proof -
  have "dom (by_origin u) \<subseteq> (\<lambda>a. origin (sdp_info (the (heap u a)))) ` set (sessions u)"
  proof
    fix k assume "k \<in> dom (by_origin u)"
    then obtain a where a: "by_origin u k = Some a" by auto
    from registry_ok_mapD [OF ok a]
    obtain s where "a \<in> set (sessions u)" "heap u a = Some s" "origin (sdp_info s) = k"
      by blast
    then show "k \<in> (\<lambda>a. origin (sdp_info (the (heap u a)))) ` set (sessions u)"
      by force
  qed
  then have "card (dom (by_origin u))
      \<le> card ((\<lambda>a. origin (sdp_info (the (heap u a)))) ` set (sessions u))"
    by (simp add: card_mono)
  also have "\<dots> \<le> card (set (sessions u))"
    by (simp add: card_image_le)
  also have "\<dots> \<le> length (sessions u)"
    by (rule card_length)
  finally show ?thesis .
qed

subsection \<open>The session limit and unknown goodbyes\<close>

text \<open>
  Claim C4. (1) Whatever events arrive after \<^verbatim>\<open>pa__init\<close> (announcements and goodbyes,
  death checks, kills of live sink inputs, packets), the module handles them all without
  tripping an assertion, and the registry never holds more than 16 sessions: neither the
  counter, nor the list, nor the map by origin. (2) \<^verbatim>\<open>session_new\<close> with the registry at
  the maximum fails with the error "Session limit reached" and leaves the registry
  unchanged, and so does the announcement of a new origin that calls it. (3) A goodbye
  whose origin is not in the registry leaves the registry unchanged.
\<close>

theorem registry_bounded:
  "(\<exists>u'. run es (pa__init name tv) = Some u'
        \<and> registry_ok u'
        \<and> n_sessions u' \<le> MAX_SESSIONS
        \<and> length (sessions u') \<le> 16
        \<and> card (dom (by_origin u')) \<le> 16)
   \<and> (n_sessions u \<ge> MAX_SESSIONS \<longrightarrow>
        session_new env info u = (Inl Session_limit_reached, u))
   \<and> (n_sessions u \<ge> MAX_SESSIONS \<and> sap_recv ev = Some False \<and> sdp_parse ev = Some info
        \<and> by_origin u (origin info) = None \<longrightarrow>
        sap_event_cb ev u = Some u)
   \<and> (sap_recv evg = Some True \<and> sdp_parse evg = Some infog
        \<and> by_origin u (origin infog) = None \<longrightarrow>
        sap_event_cb evg u = Some u)"
proof (intro conjI impI)
  obtain u' where u': "run es (pa__init name tv) = Some u'" "registry_ok u'"
      "n_sessions u' \<le> MAX_SESSIONS"
    using run_ok [OF init_ok] by blast
  have l: "length (sessions u') \<le> 16"
    using u'(2,3) by (simp add: registry_ok_def MAX_SESSIONS_def)
  have "card (dom (by_origin u')) \<le> 16"
    using registry_card [OF u'(2)] l by simp
  then show "\<exists>u'. run es (pa__init name tv) = Some u'
        \<and> registry_ok u'
        \<and> n_sessions u' \<le> MAX_SESSIONS
        \<and> length (sessions u') \<le> 16
        \<and> card (dom (by_origin u')) \<le> 16"
    using u' l by blast
next
  assume "n_sessions u \<ge> MAX_SESSIONS"
  then show "session_new env info u = (Inl Session_limit_reached, u)"
    by (rule session_new_limit)
next
  assume "n_sessions u \<ge> MAX_SESSIONS \<and> sap_recv ev = Some False \<and> sdp_parse ev = Some info
        \<and> by_origin u (origin info) = None"
  then show "sap_event_cb ev u = Some u"
    by (simp add: sap_event_cb_def session_new_limit)
next
  assume "sap_recv evg = Some True \<and> sdp_parse evg = Some infog
        \<and> by_origin u (origin infog) = None"
  then show "sap_event_cb evg u = Some u"
    by (simp add: sap_event_cb_def)
qed


theorem registry_bounded_witness:
  "n_sessions demo_full_registry \<ge> MAX_SESSIONS
   \<and> sap_recv (demo_sap False ''q'' 100) = Some False
   \<and> sdp_parse (demo_sap False ''q'' 100) = Some (demo_sdp ''q'')
   \<and> sap_recv (demo_sap True ''q'' 100) = Some True
   \<and> by_origin demo_full_registry (origin (demo_sdp ''q'')) = None
   \<and> session_new (demo_new_env 100) (demo_sdp ''q'') demo_full_registry
        = (Inl Session_limit_reached, demo_full_registry)
   \<and> sap_event_cb (demo_sap False ''q'' 100) demo_full_registry = Some demo_full_registry
   \<and> sap_event_cb (demo_sap True ''q'' 100) demo_full_registry = Some demo_full_registry"
proof -
  have n: "n_sessions demo_full_registry \<ge> MAX_SESSIONS"
    by (simp add: demo_full_count MAX_SESSIONS_def)
  have q: "by_origin demo_full_registry (origin (demo_sdp ''q'')) = None"
    by (simp add: demo_full_count demo_sdp_def)
  have e: "sap_recv (demo_sap False ''q'' 100) = Some False"
    "sdp_parse (demo_sap False ''q'' 100) = Some (demo_sdp ''q'')"
    "sap_recv (demo_sap True ''q'' 100) = Some True"
    "sdp_parse (demo_sap True ''q'' 100) = Some (demo_sdp ''q'')"
    by (simp_all add: demo_sap_def)
  show ?thesis
    using registry_bounded [where u = demo_full_registry and env = "demo_new_env 100"
        and info = "demo_sdp ''q''" and ev = "demo_sap False ''q'' 100"
        and evg = "demo_sap True ''q'' 100" and infog = "demo_sdp ''q''"
        and es = demo_sixteen and name = "''sink''" and tv = "\<lparr>tv_sec = 0, tv_usec = 0\<rparr>"]
      n q e
    by blast
qed

subsection \<open>The death check\<close>






end
